theory Spec2Isabelle
  imports Main "HOL-Library.Word"
begin

unbundle bit_operations_syntax

section \<open>The I/O SAPIC driver (drivers/parisc/iosapic.c)\<close>

subsection \<open>Data\<close>

type_synonym u8 = "8 word"
type_synonym u32 = "32 word"
type_synonym u64 = "64 word"

text \<open>
  \<open>unsigned long\<close> and \<open>void __iomem *\<close> are 64-bit words; on a 32-bit build their upper
  halves are zero. C \<open>int\<close> values are HOL integers: the driver's \<open>int\<close> arithmetic
  (promoted \<open>u8\<close> fields, masks, small shifts) stays far inside the 32-bit range, and every
  conversion to a narrower type is written out with \<open>word_of_int\<close>.
\<close>

type_synonym ulong = "64 word"
type_synonym iomem = "64 word"

text \<open>
  \<open>struct irt_entry\<close>: one row of the firmware's interrupt routing table. The table memory
  is written by the firmware call only and is never freed, so a \<open>struct irt_entry *\<close>
  is modelled by the entry it points to and \<open>NULL\<close> by \<open>None\<close>.
\<close>

record irt_entry =
  entry_type :: u8
  entry_length :: u8
  interrupt_type :: u8
  polarity_trigger :: u8
  src_bus_irq_devno :: u8
  src_bus_id :: u8
  src_seg_id :: u8
  dest_iosapic_intin :: u8
  dest_iosapic_addr :: u64

text \<open>
  The constants of \<open>iosapic_private.h\<close>. The header is not among the sources, so they
  are parameters of the model: every statement below holds for all their values.
\<close>

record irt_consts =
  IRT_IOSAPIC_TYPE :: int
  IRT_IOSAPIC_LENGTH :: int
  IRT_VECTORED_INTR :: int
  IRT_PO_MASK :: int
  IRT_ACTIVE_LO :: int
  IRT_EL_MASK :: int
  IRT_EL_SHIFT :: nat
  IRT_LEVEL_TRIG :: int
  IRT_DEV_SHIFT :: nat
  IRT_IRQ_DEVNO_MASK :: int

text \<open>
  \<open>struct pci_bus\<close> as far as the driver follows it: the root bus has no parent; a bus
  behind a bridge has the bridge device \<open>self\<close> (of which only \<open>devfn\<close> is read) and its
  parent bus.
\<close>

datatype pci_bus = Root_bus | Child_bus (self_devfn: "32 word") (parent_bus: pci_bus)

record pci_dev =
  devfn :: "32 word"
  cfg_interrupt_pin :: u8
  bus :: pci_bus

text \<open>One access to memory-mapped I/O; a read is logged with the value it returned.\<close>

datatype mmio_op = Writel u32 iomem | Readl iomem u32 | Raw_writel u32 iomem

text \<open>
  The build configuration and everything the driver calls but does not define: firmware
  (PDC) calls, the memory allocator, the PCI helpers, the processor interrupt allocator,
  and the hardware's answer to a register read, which may depend on every access made
  so far.
\<close>

record platform =
  CONFIG_64BIT :: bool
  LP64 :: bool
  CONFIG_SUPERIO :: bool
  is_pdc_pat :: bool
  PDC_OK :: int
  pdc_pat_cell_get_number :: "int \<times> nat"
  pdc_pat_get_irt_size :: "nat \<Rightarrow> int \<times> nat"
  pdc_pat_get_irt :: "nat \<Rightarrow> int \<times> irt_entry list"
  pdc_pci_irt_size :: "int \<times> nat"
  pdc_pci_irt :: "nat \<Rightarrow> int \<times> irt_entry list"
  kmalloc :: "nat \<Rightarrow> ulong"
  kzalloc_isi_ok :: "ulong \<Rightarrow> bool"
  kcalloc_vectors_ok :: "ulong \<Rightarrow> int \<Rightarrow> bool"
  ioremap_nocache :: "ulong \<Rightarrow> iomem"
  readl_value :: "mmio_op list \<Rightarrow> iomem \<Rightarrow> u32"
  PCI_SLOT :: "32 word \<Rightarrow> int"
  PCI_FUNC :: "32 word \<Rightarrow> int"
  is_superio_device :: "pci_dev \<Rightarrow> bool"
  superio_fixup_irq :: "pci_dev \<Rightarrow> int"
  SUPERIO_USB_FN :: int
  txn_alloc_irq :: "nat \<Rightarrow> int"
  txn_alloc_addr :: "int \<Rightarrow> ulong"
  txn_alloc_data :: "int \<Rightarrow> ulong"
  cpu_to_le32 :: "u32 \<Rightarrow> u32"
  cpu_check_affinity :: "int \<Rightarrow> nat \<Rightarrow> int"
  cpumask_of :: "int \<Rightarrow> nat"
  txn_affinity_addr :: "int \<Rightarrow> int \<Rightarrow> ulong"

text \<open>
  \<open>struct vector_info\<close>. The back pointer \<open>iosapic\<close> always names the controller whose
  \<open>isi_vector\<close> holds the vector (set in \<open>iosapic_register\<close>, never changed), so the
  operations below take that controller as an argument instead.
\<close>

record vector_info =
  irte :: "irt_entry option"
  eoi_addr :: iomem
  eoi_data :: u32
  txn_irq :: int
  txn_addr :: ulong
  txn_data :: ulong
  status :: u8
  irqline :: u8

record iosapic_info =
  addr :: iomem
  isi_hpa :: ulong
  isi_version :: u32
  isi_num_vectors :: int
  isi_vector :: "vector_info list"

text \<open>The two globals \<open>irt_cell\<close> and \<open>irt_num_entry\<close>.\<close>

record irt_state =
  irt_cell :: "irt_entry list option"
  irt_num_entry :: nat

text \<open>
  What the driver changes outside its own structures: the trace of MMIO accesses (oldest
  first), the number of processor interrupts requested from \<open>txn_alloc_irq\<close>, and the
  interrupts handed to \<open>cpu_claim_irq\<close> (interrupt number, controller address and line of
  the vector passed as chip data).
\<close>

record sys =
  mmio :: "mmio_op list"
  txn_allocs :: nat
  claimed :: "(int \<times> ulong \<times> u8) list"

text \<open>
  How a call can end without returning: \<open>BUG\<close>/\<open>BUG_ON\<close>, \<open>panic\<close>, and an access the C
  code makes without a check (a line number outside \<open>isi_vector\<close>, an unbound vector's
  \<open>irte\<close>), whose behaviour C leaves undefined.
\<close>

datatype halt = Bug | Panic | Wild_access

subsection \<open>Register access\<close>

definition IOSAPIC_REG_SELECT :: iomem where
  "IOSAPIC_REG_SELECT = 0x00"

definition IOSAPIC_REG_WINDOW :: iomem where
  "IOSAPIC_REG_WINDOW = 0x10"

definition IOSAPIC_REG_EOI :: iomem where
  "IOSAPIC_REG_EOI = 0x40"

definition IOSAPIC_REG_VERSION :: u32 where
  "IOSAPIC_REG_VERSION = 0x1"

definition IOSAPIC_IRDT_ENTRY :: "u8 \<Rightarrow> u32" where
  "IOSAPIC_IRDT_ENTRY idx = 0x10 + ucast idx * 2"

definition IOSAPIC_IRDT_ENTRY_HI :: "u8 \<Rightarrow> u32" where
  "IOSAPIC_IRDT_ENTRY_HI idx = 0x11 + ucast idx * 2"

definition IOSAPIC_MAX_ENTRY_MASK :: u32 where
  "IOSAPIC_MAX_ENTRY_MASK = 0x00ff0000"

definition IOSAPIC_MAX_ENTRY_SHIFT :: nat where
  "IOSAPIC_MAX_ENTRY_SHIFT = 0x10"

definition IOSAPIC_IRDT_MAX_ENTRY :: "u32 \<Rightarrow> int" where
  "IOSAPIC_IRDT_MAX_ENTRY ver =
     sint (drop_bit IOSAPIC_MAX_ENTRY_SHIFT (ver AND IOSAPIC_MAX_ENTRY_MASK))"

definition IOSAPIC_IRDT_ENABLE :: u32 where
  "IOSAPIC_IRDT_ENABLE = 0x10000"

definition IOSAPIC_IRDT_PO_LOW :: u32 where
  "IOSAPIC_IRDT_PO_LOW = 0x02000"

definition IOSAPIC_IRDT_LEVEL_TRIG :: u32 where
  "IOSAPIC_IRDT_LEVEL_TRIG = 0x08000"

definition writel :: "u32 \<Rightarrow> iomem \<Rightarrow> sys \<Rightarrow> sys" where
  "writel val a s = s\<lparr>mmio := mmio s @ [Writel val a]\<rparr>"

definition readl :: "platform \<Rightarrow> iomem \<Rightarrow> sys \<Rightarrow> u32 \<times> sys" where
  "readl pf a s =
     (let v = readl_value pf (mmio s) a in (v, s\<lparr>mmio := mmio s @ [Readl a v]\<rparr>))"

definition raw_writel :: "u32 \<Rightarrow> iomem \<Rightarrow> sys \<Rightarrow> sys" where
  "raw_writel val a s = s\<lparr>mmio := mmio s @ [Raw_writel val a]\<rparr>"

definition iosapic_read :: "platform \<Rightarrow> iomem \<Rightarrow> u32 \<Rightarrow> sys \<Rightarrow> u32 \<times> sys" where
  "iosapic_read pf iosapic reg s =
     readl pf (iosapic + IOSAPIC_REG_WINDOW) (writel reg (iosapic + IOSAPIC_REG_SELECT) s)"

definition iosapic_write :: "iomem \<Rightarrow> u32 \<Rightarrow> u32 \<Rightarrow> sys \<Rightarrow> sys" where
  "iosapic_write iosapic reg val s =
     writel val (iosapic + IOSAPIC_REG_WINDOW) (writel reg (iosapic + IOSAPIC_REG_SELECT) s)"

definition iosapic_eoi :: "iomem \<Rightarrow> u32 \<Rightarrow> sys \<Rightarrow> sys" where
  "iosapic_eoi a data s = raw_writel data a s"

subsection \<open>Loading the routing table\<close>

text \<open>
  \<open>COMPARE_IRTE_ADDR\<close>. On a 32-bit build \<open>hpa\<close> is a 32-bit \<open>unsigned long\<close> widened to
  64 bits before the upper half is filled with ones; the bitwise or gives the same value
  whatever the upper half of the model's \<open>hpa\<close> holds.
\<close>

definition COMPARE_IRTE_ADDR :: "platform \<Rightarrow> irt_entry \<Rightarrow> ulong \<Rightarrow> bool" where
  "COMPARE_IRTE_ADDR pf i hpa =
     (if CONFIG_64BIT pf then dest_iosapic_addr i = hpa
      else dest_iosapic_addr i = (hpa OR 0xffffffff00000000))"

text \<open>
  The integer conversions on the way from the firmware's \<open>unsigned long num_entries\<close> to
  \<open>irt_num_entry\<close>: \<open>iosapic_load_irt\<close> returns it as an \<open>int\<close>, and \<open>iosapic_init\<close> stores
  that \<open>int\<close> in a \<open>size_t\<close>.
\<close>

definition ulong_to_int :: "nat \<Rightarrow> int" where
  "ulong_to_int n = sint (word_of_nat n :: 32 word)"

definition int_to_size_t :: "platform \<Rightarrow> int \<Rightarrow> nat" where
  "int_to_size_t pf v =
     (if LP64 pf then unat (word_of_int v :: 64 word) else unat (word_of_int v :: 32 word))"

text \<open>
  Arithmetic in \<open>unsigned long\<close> wraps at the width of the build.
\<close>

definition ulong_wrap :: "platform \<Rightarrow> ulong \<Rightarrow> ulong" where
  "ulong_wrap pf x = (if LP64 pf then x else x AND 0xffffffff)"

text \<open>
  \<open>iosapic_alloc_irt\<close>: the address \<open>kmalloc\<close> returned (0 is \<open>NULL\<close>), rounded up to a
  multiple of 8. An entry is 16 bytes long; the size is computed in \<open>size_t\<close> from the
  \<open>int\<close> argument.
\<close>

definition iosapic_alloc_irt :: "platform \<Rightarrow> int \<Rightarrow> ulong" where
  "iosapic_alloc_irt pf num_entries =
     (let a = kmalloc pf (int_to_size_t pf (16 * int (int_to_size_t pf num_entries) + 8))
      in ulong_wrap pf (ulong_wrap pf (a + 7) AND NOT 7))"

text \<open>
  \<open>iosapic_load_irt\<close> returns, besides the entry count, the table it stored through \<open>irt\<close>
  (\<open>None\<close> when it returned before the store) and whether \<open>WARN_ON\<close> fired. The firmware's
  fill call gives its status and the contents of the table memory after the call, one
  list element for each of the \<open>num_entries\<close> slots.
\<close>

record load_result =
  load_count :: int
  load_table :: "irt_entry list option"
  load_warned :: bool

definition iosapic_load_irt :: "platform \<Rightarrow> irt_state \<Rightarrow> nat \<Rightarrow> halt + load_result" where
  "iosapic_load_irt pf st cell_num =
     (if is_pdc_pat pf then
        (let (status, num_entries) = pdc_pat_get_irt_size pf cell_num in
         if status \<noteq> PDC_OK pf then Inl Bug
         else if num_entries = 0 then Inl Bug
         else if iosapic_alloc_irt pf (ulong_to_int num_entries) = 0
           then Inr \<lparr>load_count = 0, load_table = None, load_warned = False\<rparr>
         else
           (let (status', table) = pdc_pat_get_irt pf cell_num in
            Inr \<lparr>load_count = ulong_to_int num_entries, load_table = Some table,
                 load_warned = (status' \<noteq> PDC_OK pf)\<rparr>))
      else
        (if irt_cell st \<noteq> None
           then Inr \<lparr>load_count = 0, load_table = None, load_warned = False\<rparr>
         else
           (let (status, num_entries) = pdc_pci_irt_size pf in
            if status \<noteq> PDC_OK pf
              then Inr \<lparr>load_count = 0, load_table = None, load_warned = False\<rparr>
            else if num_entries = 0 then Inl Bug
            else if iosapic_alloc_irt pf (ulong_to_int num_entries) = 0
              then Inr \<lparr>load_count = 0, load_table = None, load_warned = False\<rparr>
            else
              (let (status', table) = pdc_pci_irt pf num_entries in
               if status' \<noteq> PDC_OK pf then Inl Bug
               else Inr \<lparr>load_count = ulong_to_int num_entries, load_table = Some table,
                         load_warned = False\<rparr>))))"

text \<open>
  \<open>iosapic_init\<close>. The cell number is asked of the firmware only on an LP64 build under
  PAT and is 0 otherwise; the load writes \<open>irt_cell\<close> through its second argument, and a
  count of 0 clears it. The result also says whether the load's \<open>WARN_ON\<close> fired.
\<close>

definition iosapic_init_cell :: "platform \<Rightarrow> nat" where
  "iosapic_init_cell pf =
     (if LP64 pf \<and> is_pdc_pat pf \<and> fst (pdc_pat_cell_get_number pf) = PDC_OK pf
      then snd (pdc_pat_cell_get_number pf) else 0)"

definition iosapic_init :: "platform \<Rightarrow> irt_state \<Rightarrow> halt + (irt_state \<times> bool)" where
  "iosapic_init pf st =
     (case iosapic_load_irt pf st (iosapic_init_cell pf) of
        Inl h \<Rightarrow> Inl h
      | Inr r \<Rightarrow>
          (let cell' = (case load_table r of None \<Rightarrow> irt_cell st | Some t \<Rightarrow> Some t);
               n = int_to_size_t pf (load_count r)
           in Inr (\<lparr>irt_cell = (if n = 0 then None else cell'), irt_num_entry = n\<rparr>,
                   load_warned r)))"

subsection \<open>Looking up a routing entry\<close>

text \<open>
  The entries the loops below visit: the first \<open>irt_num_entry\<close> entries behind
  \<open>irt_cell\<close>. \<open>iosapic_init\<close> stores both from one firmware reply.
\<close>

definition irt_entries :: "irt_state \<Rightarrow> irt_entry list" where
  "irt_entries st =
     take (irt_num_entry st) (case irt_cell st of None \<Rightarrow> [] | Some t \<Rightarrow> t)"

text \<open>The \<open>u8 irq_devno\<close> of \<open>irt_find_irqline\<close>: an \<open>int\<close> expression stored in a byte.\<close>

definition irq_devno_of :: "irt_consts \<Rightarrow> u8 \<Rightarrow> u8 \<Rightarrow> u8" where
  "irq_devno_of k slot intr_pin =
     word_of_int (push_bit (IRT_DEV_SHIFT k) (uint slot) OR (uint intr_pin - 1))"

text \<open>The loop of \<open>irt_find_irqline\<close>; each \<open>continue\<close> is a recursive call on the rest.\<close>

fun irt_find_loop ::
  "irt_consts \<Rightarrow> platform \<Rightarrow> ulong \<Rightarrow> u8 \<Rightarrow> irt_entry list \<Rightarrow> irt_entry option" where
  "irt_find_loop k pf hpa irq_devno [] = None"
| "irt_find_loop k pf hpa irq_devno (i # rest) =
     (if uint (entry_type i) \<noteq> IRT_IOSAPIC_TYPE k
        then irt_find_loop k pf hpa irq_devno rest
      else if uint (entry_length i) \<noteq> IRT_IOSAPIC_LENGTH k
        then irt_find_loop k pf hpa irq_devno rest
      else if uint (interrupt_type i) \<noteq> IRT_VECTORED_INTR k
        then irt_find_loop k pf hpa irq_devno rest
      else if \<not> COMPARE_IRTE_ADDR pf i hpa
        then irt_find_loop k pf hpa irq_devno rest
      else if (uint (src_bus_irq_devno i) AND IRT_IRQ_DEVNO_MASK k) \<noteq> uint irq_devno
        then irt_find_loop k pf hpa irq_devno rest
      else Some i)"

definition irt_find_irqline ::
  "irt_consts \<Rightarrow> platform \<Rightarrow> irt_state \<Rightarrow> iosapic_info \<Rightarrow> u8 \<Rightarrow> u8 \<Rightarrow> irt_entry option" where
  "irt_find_irqline k pf st isi slot intr_pin =
     irt_find_loop k pf (isi_hpa isi) (irq_devno_of k slot intr_pin) (irt_entries st)"

text \<open>
  The match as the specification words it: all three tags equal the expected constants,
  the destination address equals the controller's, and the masked device number equals the
  encoded slot and pin.
\<close>

definition irte_matches :: "irt_consts \<Rightarrow> platform \<Rightarrow> ulong \<Rightarrow> u8 \<Rightarrow> u8 \<Rightarrow> irt_entry \<Rightarrow> bool" where
  "irte_matches k pf controller_addr slot pin e =
     (uint (entry_type e) = IRT_IOSAPIC_TYPE k \<and>
      uint (entry_length e) = IRT_IOSAPIC_LENGTH k \<and>
      uint (interrupt_type e) = IRT_VECTORED_INTR k \<and>
      COMPARE_IRTE_ADDR pf e controller_addr \<and>
      (uint (src_bus_irq_devno e) AND IRT_IRQ_DEVNO_MASK k) = uint (irq_devno_of k slot pin))"

text \<open>
  The same match with the device number of the claim's wording: the integer value of
  \<open>(slot << IRT_DEV_SHIFT) | (pin - 1)\<close>, not cut to a byte.
\<close>

definition irte_matches_claimed ::
  "irt_consts \<Rightarrow> platform \<Rightarrow> ulong \<Rightarrow> u8 \<Rightarrow> u8 \<Rightarrow> irt_entry \<Rightarrow> bool" where
  "irte_matches_claimed k pf controller_addr slot pin e =
     (uint (entry_type e) = IRT_IOSAPIC_TYPE k \<and>
      uint (entry_length e) = IRT_IOSAPIC_LENGTH k \<and>
      uint (interrupt_type e) = IRT_VECTORED_INTR k \<and>
      COMPARE_IRTE_ADDR pf e controller_addr \<and>
      (uint (src_bus_irq_devno e) AND IRT_IRQ_DEVNO_MASK k) =
        push_bit (IRT_DEV_SHIFT k) (uint slot) OR (uint pin - 1))"

subsection \<open>Registering a controller\<close>

text \<open>
  The search loop of \<open>iosapic_register\<close>: \<open>Some cnt\<close> when it leaves by \<open>break\<close> at entry
  \<open>cnt\<close>, \<open>None\<close> when it runs to \<open>cnt = irt_num_entry\<close>. The \<open>WARN_ON\<close> on the entry
  type only logs.
\<close>

fun register_loop :: "platform \<Rightarrow> ulong \<Rightarrow> nat \<Rightarrow> irt_entry list \<Rightarrow> nat option" where
  "register_loop pf hpa cnt [] = None"
| "register_loop pf hpa cnt (i # rest) =
     (if COMPARE_IRTE_ADDR pf i hpa then Some cnt else register_loop pf hpa (cnt + 1) rest)"

text \<open>A vector as \<open>kcalloc\<close> hands it out (all zero) with its line number set.\<close>

definition new_vector :: "int \<Rightarrow> vector_info" where
  "new_vector cnt =
     \<lparr>irte = None, eoi_addr = 0, eoi_data = 0, txn_irq = 0, txn_addr = 0, txn_data = 0,
      status = 0, irqline = word_of_int cnt\<rparr>"

definition iosapic_rd_version :: "platform \<Rightarrow> iomem \<Rightarrow> sys \<Rightarrow> u32 \<times> sys" where
  "iosapic_rd_version pf a s = iosapic_read pf a IOSAPIC_REG_VERSION s"

definition iosapic_register ::
  "platform \<Rightarrow> irt_state \<Rightarrow> ulong \<Rightarrow> sys \<Rightarrow> halt + (iosapic_info option \<times> sys)" where
  "iosapic_register pf st hpa s =
     (case register_loop pf hpa 0 (irt_entries st) of
        None \<Rightarrow> Inr (None, s)
      | Some cnt \<Rightarrow>
          if \<not> kzalloc_isi_ok pf hpa then Inl Bug
          else
            (let a = ioremap_nocache pf hpa;
                 (ver, s') = iosapic_rd_version pf a s;
                 nv = IOSAPIC_IRDT_MAX_ENTRY ver + 1
             in if \<not> kcalloc_vectors_ok pf hpa nv then Inr (None, s')
                else Inr (Some \<lparr>addr = a, isi_hpa = hpa, isi_version = ver,
                                isi_num_vectors = nv,
                                isi_vector = map (\<lambda>cnt. new_vector (int cnt)) [0..<nat nv]\<rparr>,
                          s')))"

subsection \<open>Translating a device's pin\<close>

text \<open>
  Modelled from the spec: \<open>pci_swizzle_interrupt_pin\<close> is defined in the PCI core, which
  is not among the sources. The specification gives
  \<open>effective_pin = (pin + device_number - 1) mod 4\<close>, mapped back to 1..4 by adding 1; the
  device number is the device's \<open>PCI_SLOT\<close>.
\<close>

definition pci_swizzle_interrupt_pin :: "platform \<Rightarrow> pci_dev \<Rightarrow> u8 \<Rightarrow> u8" where
  "pci_swizzle_interrupt_pin pf dev pin =
     word_of_int ((uint pin + PCI_SLOT pf (devfn dev) - 1) mod 4 + 1)"

text \<open>\<open>while (p->parent->parent) p = p->parent;\<close> The root bus is the one with no parent.\<close>

fun locate_host_bus :: "pci_bus \<Rightarrow> pci_bus" where
  "locate_host_bus (Child_bus d (Child_bus d' gp)) = locate_host_bus (Child_bus d' gp)"
| "locate_host_bus p = p"

definition iosapic_xlate_pin ::
  "irt_consts \<Rightarrow> platform \<Rightarrow> irt_state \<Rightarrow> iosapic_info \<Rightarrow> pci_dev \<Rightarrow> irt_entry option" where
  "iosapic_xlate_pin k pf st isi pcidev =
     (let intr_pin = cfg_interrupt_pin pcidev in
      if intr_pin = 0 then None
      else if bus pcidev \<noteq> Root_bus then
        (let intr_pin' = pci_swizzle_interrupt_pin pf pcidev intr_pin;
             p = locate_host_bus (bus pcidev);
             intr_slot = word_of_int (PCI_SLOT pf (self_devfn p))
         in irt_find_irqline k pf st isi intr_slot intr_pin')
      else
        irt_find_irqline k pf st isi (word_of_int (PCI_SLOT pf (devfn pcidev))) intr_pin)"

text \<open>The bridges between a bus and the root bus, nearest first.\<close>

fun bridge_chain :: "pci_bus \<Rightarrow> 32 word list" where
  "bridge_chain Root_bus = []"
| "bridge_chain (Child_bus d p) = d # bridge_chain p"

subsection \<open>Programming a redirection entry\<close>

definition iosapic_rd_irt_entry ::
  "platform \<Rightarrow> iosapic_info \<Rightarrow> vector_info \<Rightarrow> sys \<Rightarrow> (u32 \<times> u32) \<times> sys" where
  "iosapic_rd_irt_entry pf isp vi s =
     (let idx = irqline vi;
          (dp0, s1) = iosapic_read pf (addr isp) (IOSAPIC_IRDT_ENTRY idx) s;
          (dp1, s2) = iosapic_read pf (addr isp) (IOSAPIC_IRDT_ENTRY_HI idx) s1
      in ((dp0, dp1), s2))"

definition iosapic_wr_irt_entry ::
  "platform \<Rightarrow> iosapic_info \<Rightarrow> vector_info \<Rightarrow> u32 \<Rightarrow> u32 \<Rightarrow> sys \<Rightarrow> sys" where
  "iosapic_wr_irt_entry pf isp vi dp0 dp1 s =
     (let s1 = iosapic_write (addr isp) (IOSAPIC_IRDT_ENTRY (irqline vi)) dp0 s;
          (dp0', s2) = readl pf (addr isp + IOSAPIC_REG_WINDOW) s1;
          s3 = iosapic_write (addr isp) (IOSAPIC_IRDT_ENTRY_HI (irqline vi)) dp1 s2;
          (dp1', s4) = readl pf (addr isp + IOSAPIC_REG_WINDOW) s3
      in s4)"

text \<open>\<open>iosapic_set_irt_data\<close> reads through \<open>vi->irte\<close> without a check.\<close>

definition iosapic_set_irt_data ::
  "irt_consts \<Rightarrow> platform \<Rightarrow> vector_info \<Rightarrow> halt + (u32 \<times> u32)" where
  "iosapic_set_irt_data k pf vi =
     (case irte vi of
        None \<Rightarrow> Inl Wild_access
      | Some p \<Rightarrow>
          (let mode = 0;
               mode = (if (uint (polarity_trigger p) AND IRT_PO_MASK k) = IRT_ACTIVE_LO k
                       then mode OR IOSAPIC_IRDT_PO_LOW else mode);
               mode = (if (drop_bit (IRT_EL_SHIFT k) (uint (polarity_trigger p)) AND IRT_EL_MASK k)
                            = IRT_LEVEL_TRIG k
                       then mode OR IOSAPIC_IRDT_LEVEL_TRIG else mode);
               dp0 = mode OR ucast (txn_data vi);
               dp1 = (if is_pdc_pat pf then ucast (txn_addr vi)
                      else drop_bit 4 ((ucast (txn_addr vi) :: u32) AND 0x0ff00000) OR
                           push_bit 12 ((ucast (txn_addr vi) :: u32) AND 0x000ff000))
           in Inr (dp0, dp1)))"

text \<open>
  The callbacks of \<open>iosapic_interrupt_type\<close>. The chip data of the interrupt is the vector
  \<open>vi\<close>; \<open>isp\<close> is the controller \<open>vi->iosapic\<close>. \<open>iosapic_lock\<close> is held around the
  register accesses of mask and set-affinity; calls are modelled one at a time.
\<close>

definition iosapic_mask_irq :: "platform \<Rightarrow> iosapic_info \<Rightarrow> vector_info \<Rightarrow> sys \<Rightarrow> sys" where
  "iosapic_mask_irq pf isp vi s =
     (let ((d0, d1), s1) = iosapic_rd_irt_entry pf isp vi s;
          d0 = d0 OR IOSAPIC_IRDT_ENABLE
      in iosapic_wr_irt_entry pf isp vi d0 d1 s1)"

text \<open>The \<open>WARN_ON(vi->txn_irq == 0)\<close> of \<open>iosapic_unmask_irq\<close> only logs.\<close>

definition iosapic_unmask_irq ::
  "irt_consts \<Rightarrow> platform \<Rightarrow> iosapic_info \<Rightarrow> vector_info \<Rightarrow> sys \<Rightarrow> halt + sys" where
  "iosapic_unmask_irq k pf isp vi s =
     (case iosapic_set_irt_data k pf vi of
        Inl h \<Rightarrow> Inl h
      | Inr (d0, d1) \<Rightarrow>
          (let s1 = iosapic_wr_irt_entry pf isp vi d0 d1 s
           in Inr (iosapic_eoi (eoi_addr vi) (eoi_data vi) s1)))"

text \<open>\<open>iosapic_eoi_irq\<close>; the \<open>cpu_eoi_irq\<close> after the write belongs to the processor side.\<close>

definition iosapic_eoi_irq :: "vector_info \<Rightarrow> sys \<Rightarrow> sys" where
  "iosapic_eoi_irq vi s = iosapic_eoi (eoi_addr vi) (eoi_data vi) s"

text \<open>
  \<open>iosapic_set_affinity_irq\<close> for the interrupt number \<open>d_irq\<close> and the requested mask
  \<open>dest\<close>. It returns its \<open>int\<close> result, the vector as it leaves it, the affinity mask it
  stored (if any) and the trace.
\<close>

definition iosapic_set_affinity_irq ::
  "irt_consts \<Rightarrow> platform \<Rightarrow> iosapic_info \<Rightarrow> int \<Rightarrow> vector_info \<Rightarrow> nat \<Rightarrow> sys \<Rightarrow>
     halt + (int \<times> vector_info \<times> nat option \<times> sys)" where
  "iosapic_set_affinity_irq k pf isp d_irq vi dest s =
     (let dest_cpu = cpu_check_affinity pf d_irq dest in
      if dest_cpu < 0 then Inr (- 1, vi, None, s)
      else
        (let vi' = vi\<lparr>txn_addr := txn_affinity_addr pf d_irq dest_cpu\<rparr>;
             ((d0, d1), s1) = iosapic_rd_irt_entry pf isp vi' s
         in case iosapic_set_irt_data k pf vi' of
              Inl h \<Rightarrow> Inl h
            | Inr (dummy_d0, d1') \<Rightarrow>
                Inr (0, vi', Some (cpumask_of pf dest_cpu),
                     iosapic_wr_irt_entry pf isp vi' d0 d1' s1)))"

subsection \<open>Binding a device\<close>

text \<open>
  \<open>iosapic_fixup_irq\<close> returns its \<open>int\<close> result (\<open>-1\<close>, or the value it has stored in
  \<open>pcidev->irq\<close>), the controller with its vectors, and the outside state. The vector is
  \<open>isi->isi_vector + isi_line\<close> with no bound check on the line.
\<close>

definition iosapic_fixup_irq ::
  "irt_consts \<Rightarrow> platform \<Rightarrow> irt_state \<Rightarrow> iosapic_info option \<Rightarrow> pci_dev \<Rightarrow> sys \<Rightarrow>
     halt + (int \<times> iosapic_info option \<times> sys)" where
  "iosapic_fixup_irq k pf st isi_obj pcidev s =
     (case isi_obj of
        None \<Rightarrow> Inr (- 1, None, s)
      | Some isi \<Rightarrow>
          if CONFIG_SUPERIO pf \<and> is_superio_device pf pcidev \<and>
             PCI_FUNC pf (devfn pcidev) \<noteq> SUPERIO_USB_FN pf
            then Inr (superio_fixup_irq pf pcidev, Some isi, s)
          else
            (case iosapic_xlate_pin k pf st isi pcidev of
               None \<Rightarrow> Inr (- 1, Some isi, s)
             | Some e \<Rightarrow>
                 (let isi_line = unat (dest_iosapic_intin e) in
                  if \<not> isi_line < length (isi_vector isi) then Inl Wild_access
                  else
                    (let vi = isi_vector isi ! isi_line in
                     if irte vi \<noteq> None then Inr (txn_irq vi, Some isi, s)
                     else
                       (let irq = txn_alloc_irq pf (txn_allocs s) in
                        if irq < 0 then Inl Panic
                        else
                          (let vi' = vi\<lparr>irte := Some e, txn_irq := irq,
                                        txn_addr := txn_alloc_addr pf irq,
                                        txn_data := txn_alloc_data pf irq,
                                        eoi_addr := addr isi + IOSAPIC_REG_EOI,
                                        eoi_data := cpu_to_le32 pf (ucast (txn_alloc_data pf irq))\<rparr>
                           in Inr (irq,
                                   Some (isi\<lparr>isi_vector := (isi_vector isi)[isi_line := vi']\<rparr>),
                                   s\<lparr>txn_allocs := txn_allocs s + 1,
                                     claimed := claimed s @ [(irq, isi_hpa isi, irqline vi')]\<rparr>)))))))"

text \<open>
  The calls a controller receives over its lifetime: the PCI layer binds devices, the
  interrupt layer invokes the callbacks on the vector of a line.
\<close>

datatype driver_call =
    Fixup pci_dev
  | Mask nat
  | Unmask nat
  | Eoi nat
  | Set_affinity nat nat

fun driver_step ::
  "irt_consts \<Rightarrow> platform \<Rightarrow> irt_state \<Rightarrow> driver_call \<Rightarrow> iosapic_info \<times> sys \<Rightarrow>
     halt + (iosapic_info \<times> sys)" where
  "driver_step k pf st (Fixup dev) (isi, s) =
     (case iosapic_fixup_irq k pf st (Some isi) dev s of
        Inl h \<Rightarrow> Inl h
      | Inr (r, None, s') \<Rightarrow> Inr (isi, s')
      | Inr (r, Some isi', s') \<Rightarrow> Inr (isi', s'))"
| "driver_step k pf st (Mask n) (isi, s) =
     (if n < length (isi_vector isi)
      then Inr (isi, iosapic_mask_irq pf isi (isi_vector isi ! n) s) else Inl Wild_access)"
| "driver_step k pf st (Unmask n) (isi, s) =
     (if n < length (isi_vector isi)
      then (case iosapic_unmask_irq k pf isi (isi_vector isi ! n) s of
              Inl h \<Rightarrow> Inl h | Inr s' \<Rightarrow> Inr (isi, s'))
      else Inl Wild_access)"
| "driver_step k pf st (Eoi n) (isi, s) =
     (if n < length (isi_vector isi)
      then Inr (isi, iosapic_eoi_irq (isi_vector isi ! n) s) else Inl Wild_access)"
| "driver_step k pf st (Set_affinity n dest) (isi, s) =
     (if n < length (isi_vector isi)
      then (case iosapic_set_affinity_irq k pf isi (txn_irq (isi_vector isi ! n))
                   (isi_vector isi ! n) dest s of
              Inl h \<Rightarrow> Inl h
            | Inr (r, vi', a, s') \<Rightarrow> Inr (isi\<lparr>isi_vector := (isi_vector isi)[n := vi']\<rparr>, s'))
      else Inl Wild_access)"

fun driver_run ::
  "irt_consts \<Rightarrow> platform \<Rightarrow> irt_state \<Rightarrow> driver_call list \<Rightarrow> iosapic_info \<times> sys \<Rightarrow>
     halt + (iosapic_info \<times> sys)" where
  "driver_run k pf st [] x = Inr x"
| "driver_run k pf st (c # cs) x =
     (case driver_step k pf st c x of Inl h \<Rightarrow> Inl h | Inr x' \<Rightarrow> driver_run k pf st cs x')"

text \<open>
  The ordering rule on a trace, for the window at address \<open>w\<close>: \<open>pending\<close> says that a
  write to the window has not been followed by a read of the window yet. No write of any
  kind may be issued while one is pending, and none may be left pending at the end.
\<close>

fun flush_ordered :: "iomem \<Rightarrow> bool \<Rightarrow> mmio_op list \<Rightarrow> bool" where
  "flush_ordered w pending [] = (\<not> pending)"
| "flush_ordered w pending (Writel v a # rest) = (\<not> pending \<and> flush_ordered w (a = w) rest)"
| "flush_ordered w pending (Raw_writel v a # rest) = (\<not> pending \<and> flush_ordered w False rest)"
| "flush_ordered w pending (Readl a v # rest) = flush_ordered w (pending \<and> a \<noteq> w) rest"

subsection \<open>Concrete inputs\<close>

text \<open>
  The constants as the kernel's \<open>iosapic_private.h\<close> has them, one routing entry (slot 3,
  pin 2, line 5 of the controller at \<open>0x1000\<close>, active low, level triggered), and a PAT
  platform on which every external call succeeds.
\<close>

definition example_consts :: irt_consts where
  "example_consts =
     \<lparr>IRT_IOSAPIC_TYPE = 139, IRT_IOSAPIC_LENGTH = 16, IRT_VECTORED_INTR = 0,
      IRT_PO_MASK = 3, IRT_ACTIVE_LO = 3, IRT_EL_MASK = 3, IRT_EL_SHIFT = 2,
      IRT_LEVEL_TRIG = 3, IRT_DEV_SHIFT = 2, IRT_IRQ_DEVNO_MASK = 0x7f\<rparr>"

definition example_entry :: irt_entry where
  "example_entry =
     \<lparr>entry_type = 139, entry_length = 16, interrupt_type = 0, polarity_trigger = 0xf,
      src_bus_irq_devno = 0xd, src_bus_id = 0, src_seg_id = 0, dest_iosapic_intin = 5,
      dest_iosapic_addr = 0x1000\<rparr>"

definition example_platform :: platform where
  "example_platform =
     \<lparr>CONFIG_64BIT = True, LP64 = True, CONFIG_SUPERIO = False, is_pdc_pat = True,
      PDC_OK = 0, pdc_pat_cell_get_number = (0, 0),
      pdc_pat_get_irt_size = (\<lambda>cell. (0, 1)),
      pdc_pat_get_irt = (\<lambda>cell. (0, [example_entry])),
      pdc_pci_irt_size = (0, 1),
      pdc_pci_irt = (\<lambda>n. (0, [example_entry])),
      kmalloc = (\<lambda>n. 0x4000),
      kzalloc_isi_ok = (\<lambda>hpa. True),
      kcalloc_vectors_ok = (\<lambda>hpa n. True),
      ioremap_nocache = (\<lambda>hpa. hpa),
      readl_value = (\<lambda>tr a. 0x00060021),
      PCI_SLOT = (\<lambda>d. uint (drop_bit 3 d AND 0x1f)),
      PCI_FUNC = (\<lambda>d. uint (d AND 7)),
      is_superio_device = (\<lambda>d. False),
      superio_fixup_irq = (\<lambda>d. 0),
      SUPERIO_USB_FN = 2,
      txn_alloc_irq = (\<lambda>n. 64 + int n),
      txn_alloc_addr = (\<lambda>irq. 0xfffa0000),
      txn_alloc_data = (\<lambda>irq. word_of_int (irq - 64)),
      cpu_to_le32 = (\<lambda>w. w),
      cpu_check_affinity = (\<lambda>irq dest. if dest = 0 then - 1 else 1),
      cpumask_of = (\<lambda>cpu. 2 ^ nat cpu),
      txn_affinity_addr = (\<lambda>irq cpu. 0xfffb0000)\<rparr>"

text \<open>
  A loaded table whose first entry has a wrong type tag and is otherwise the example
  entry, the state before any load, and the outside state before any access.
\<close>

definition example_irt :: irt_state where
  "example_irt =
     \<lparr>irt_cell = Some [example_entry\<lparr>entry_type := 0\<rparr>, example_entry],
      irt_num_entry = 2\<rparr>"

definition empty_irt :: irt_state where
  "empty_irt = \<lparr>irt_cell = None, irt_num_entry = 0\<rparr>"

definition sys0 :: sys where
  "sys0 = \<lparr>mmio = [], txn_allocs = 0, claimed = []\<rparr>"

definition example_isi :: iosapic_info where
  "example_isi =
     \<lparr>addr = 0x1000, isi_hpa = 0x1000, isi_version = 0x00060021, isi_num_vectors = 7,
      isi_vector = map (\<lambda>cnt. new_vector (int cnt)) [0..<7]\<rparr>"

text \<open>A vector bound to the example entry, and the example platform with legacy firmware.\<close>

definition bound_vector :: vector_info where
  "bound_vector =
     \<lparr>irte = Some example_entry, eoi_addr = 0x1040, eoi_data = 3, txn_irq = 67,
      txn_addr = 0xfffa0000, txn_data = 3, status = 0, irqline = 5\<rparr>"

definition legacy_platform :: platform where
  "legacy_platform = example_platform\<lparr>is_pdc_pat := False\<rparr>"

text \<open>Platforms whose firmware refuses the size query, reports no entry, or fails to fill.\<close>

definition pat_unsupported :: platform where
  "pat_unsupported = example_platform\<lparr>pdc_pat_get_irt_size := (\<lambda>cell. (- 2, 0))\<rparr>"

definition pat_no_entries :: platform where
  "pat_no_entries = example_platform\<lparr>pdc_pat_get_irt_size := (\<lambda>cell. (0, 0))\<rparr>"

definition legacy_no_entries :: platform where
  "legacy_no_entries = legacy_platform\<lparr>pdc_pci_irt_size := (0, 0)\<rparr>"

definition legacy_unsupported :: platform where
  "legacy_unsupported = legacy_platform\<lparr>pdc_pci_irt_size := (- 2, 0)\<rparr>"

definition pat_fill_fails :: platform where
  "pat_fill_fails =
     example_platform\<lparr>pdc_pat_get_irt := (\<lambda>cell. (- 3, [example_entry\<lparr>entry_type := 0\<rparr>]))\<rparr>"

definition legacy_fill_fails :: platform where
  "legacy_fill_fails =
     legacy_platform\<lparr>pdc_pci_irt := (\<lambda>n. (- 3, [example_entry\<lparr>entry_type := 0\<rparr>]))\<rparr>"

text \<open>
  Three devices: one in slot 7 behind two bridges, the upper one in slot 3 of the root
  bus; one in slot 3 of the root bus; one that uses no interrupt pin.
\<close>

definition bridged_dev :: pci_dev where
  "bridged_dev =
     \<lparr>devfn = 0x38, cfg_interrupt_pin = 3,
      bus = Child_bus 0x08 (Child_bus 0x18 Root_bus)\<rparr>"

definition plain_dev :: pci_dev where
  "plain_dev = \<lparr>devfn = 0x18, cfg_interrupt_pin = 2, bus = Root_bus\<rparr>"

definition no_pin_dev :: pci_dev where
  "no_pin_dev = \<lparr>devfn = 0x18, cfg_interrupt_pin = 0, bus = Root_bus\<rparr>"

text \<open>
  A call of \<open>iosapic_fixup_irq\<close> for \<open>dev\<close> resolves to the routing entry \<open>e\<close>: it does
  not leave through the SuperIO branch, and the pin translation finds \<open>e\<close>.
\<close>

definition fixup_resolves ::
  "irt_consts \<Rightarrow> platform \<Rightarrow> irt_state \<Rightarrow> iosapic_info \<Rightarrow> pci_dev \<Rightarrow> irt_entry \<Rightarrow> bool" where
  "fixup_resolves k pf st isi dev e =
     (\<not> (CONFIG_SUPERIO pf \<and> is_superio_device pf dev \<and>
         PCI_FUNC pf (devfn dev) \<noteq> SUPERIO_USB_FN pf) \<and>
      iosapic_xlate_pin k pf st isi dev = Some e)"

section \<open>Properties\<close>

subsection \<open>Loading the table\<close>

lemma ulong_to_int_small:
  assumes "n < 2 ^ 31"
  shows "ulong_to_int n = int n"
proof -
  from assms have u: "uint (word_of_nat n :: 32 word) = int n"
    by (simp add: uint_word_of_int take_bit_nat_eq_self unsigned_of_nat)
  have "signed_take_bit 31 (int n) = int n"
  proof (rule signed_take_bit_int_eq_self)
    show "- (2 ^ 31) \<le> int n" by simp
    from assms show "int n < 2 ^ 31" by simp
  qed
  with u show ?thesis
    by (simp add: ulong_to_int_def sint_uint)
qed

lemma count_roundtrip:
  assumes "n < 2 ^ 31"
  shows "int_to_size_t pf (ulong_to_int n) = n"
proof -
  from assms have "n < 2 ^ 32" "n < 2 ^ 64"
    by (simp_all add: less_trans [of n "2 ^ 31"])
  then show ?thesis
    by (simp add: int_to_size_t_def ulong_to_int_small [OF assms] unat_of_nat
        take_bit_nat_eq_self)
qed

text \<open>
  The claim C3 as worded fails in three of its four cases: under PAT a size query that is
  not \<open>PDC_OK\<close> stops at \<open>BUG_ON(status != PDC_OK)\<close>, and under either protocol a
  successful size query reporting zero entries stops at \<open>BUG_ON(num_entries == 0)\<close>.
\<close>

theorem iosapic_init_soft_fail_counterexample:
  "iosapic_init pat_unsupported empty_irt = Inl Bug \<and>
   iosapic_init pat_no_entries empty_irt = Inl Bug \<and>
   iosapic_init legacy_no_entries empty_irt = Inl Bug"
  by (simp add: iosapic_init_def iosapic_load_irt_def pat_unsupported_def pat_no_entries_def
      legacy_no_entries_def legacy_platform_def example_platform_def empty_irt_def)

text \<open>
  C3 (amended): under the legacy protocol, when the size query returns a status other
  than \<open>PDC_OK\<close> the load returns 0 and \<open>iosapic_init\<close> leaves the table pointer cleared
  with an entry count of 0 (on a first load this is decided by the status test; with a
  table already loaded the load returns 0 before it asks). Under PAT a failed size query halts the startup path, and so
  does a size query that reports zero entries under PAT or, on a first load with a
  successful query, under the legacy protocol.
\<close>

theorem iosapic_init_soft_fail_legacy:
  "(\<not> is_pdc_pat pf \<and> fst (pdc_pci_irt_size pf) \<noteq> PDC_OK pf \<longrightarrow>
      (\<exists>r. iosapic_load_irt pf st cell_num = Inr r \<and> load_count r = 0) \<and>
      iosapic_init pf st = Inr (\<lparr>irt_cell = None, irt_num_entry = 0\<rparr>, False)) \<and>
   (is_pdc_pat pf \<and> fst (pdc_pat_get_irt_size pf (iosapic_init_cell pf)) \<noteq> PDC_OK pf \<longrightarrow>
      iosapic_init pf st = Inl Bug) \<and>
   (is_pdc_pat pf \<and> snd (pdc_pat_get_irt_size pf (iosapic_init_cell pf)) = 0 \<longrightarrow>
      iosapic_init pf st = Inl Bug) \<and>
   (\<not> is_pdc_pat pf \<and> irt_cell st = None \<and> pdc_pci_irt_size pf = (PDC_OK pf, 0) \<longrightarrow>
      iosapic_init pf st = Inl Bug)"
proof (intro conjI impI)
  assume a: "\<not> is_pdc_pat pf \<and> fst (pdc_pci_irt_size pf) \<noteq> PDC_OK pf"
  then have l: "iosapic_load_irt pf st c =
                  Inr \<lparr>load_count = 0, load_table = None, load_warned = False\<rparr>" for c
    by (simp add: iosapic_load_irt_def split_beta)
  from l show "\<exists>r. iosapic_load_irt pf st cell_num = Inr r \<and> load_count r = 0"
    by simp
  have "int_to_size_t pf 0 = 0"
    by (simp add: int_to_size_t_def)
  with l show "iosapic_init pf st = Inr (\<lparr>irt_cell = None, irt_num_entry = 0\<rparr>, False)"
    by (simp add: iosapic_init_def)
next
  assume "is_pdc_pat pf \<and> fst (pdc_pat_get_irt_size pf (iosapic_init_cell pf)) \<noteq> PDC_OK pf"
  then have "iosapic_load_irt pf st (iosapic_init_cell pf) = Inl Bug"
    by (simp add: iosapic_load_irt_def split_beta)
  then show "iosapic_init pf st = Inl Bug"
    by (simp add: iosapic_init_def)
next
  assume "is_pdc_pat pf \<and> snd (pdc_pat_get_irt_size pf (iosapic_init_cell pf)) = 0"
  then have "iosapic_load_irt pf st (iosapic_init_cell pf) = Inl Bug"
    by (simp add: iosapic_load_irt_def split_beta)
  then show "iosapic_init pf st = Inl Bug"
    by (simp add: iosapic_init_def)
next
  assume "\<not> is_pdc_pat pf \<and> irt_cell st = None \<and> pdc_pci_irt_size pf = (PDC_OK pf, 0)"
  then have "iosapic_load_irt pf st (iosapic_init_cell pf) = Inl Bug"
    by (simp add: iosapic_load_irt_def)
  then show "iosapic_init pf st = Inl Bug"
    by (simp add: iosapic_init_def)
qed

theorem iosapic_init_soft_fail_legacy_witness:
  "\<not> is_pdc_pat legacy_unsupported \<and> irt_cell empty_irt = None \<and>
   fst (pdc_pci_irt_size legacy_unsupported) \<noteq> PDC_OK legacy_unsupported \<and>
   iosapic_init legacy_unsupported empty_irt
     = Inr (\<lparr>irt_cell = None, irt_num_entry = 0\<rparr>, False) \<and>
   fst (pdc_pci_irt_size legacy_platform) = PDC_OK legacy_platform \<and>
   iosapic_init legacy_platform empty_irt
     = Inr (\<lparr>irt_cell = Some [example_entry], irt_num_entry = 1\<rparr>, False) \<and>
   is_pdc_pat pat_unsupported \<and>
   fst (pdc_pat_get_irt_size pat_unsupported (iosapic_init_cell pat_unsupported))
     \<noteq> PDC_OK pat_unsupported \<and>
   iosapic_init pat_unsupported empty_irt = Inl Bug \<and>
   snd (pdc_pat_get_irt_size pat_no_entries (iosapic_init_cell pat_no_entries)) = 0 \<and>
   iosapic_init pat_no_entries empty_irt = Inl Bug \<and>
   irt_cell empty_irt = None \<and>
   pdc_pci_irt_size legacy_no_entries = (PDC_OK legacy_no_entries, 0) \<and>
   iosapic_init legacy_no_entries empty_irt = Inl Bug"
proof -
  have h: "\<not> is_pdc_pat legacy_unsupported"
    "fst (pdc_pci_irt_size legacy_unsupported) \<noteq> PDC_OK legacy_unsupported"
    "is_pdc_pat pat_unsupported"
    "fst (pdc_pat_get_irt_size pat_unsupported (iosapic_init_cell pat_unsupported))
       \<noteq> PDC_OK pat_unsupported"
    "is_pdc_pat pat_no_entries"
    "snd (pdc_pat_get_irt_size pat_no_entries (iosapic_init_cell pat_no_entries)) = 0"
    "\<not> is_pdc_pat legacy_no_entries"
    "irt_cell empty_irt = None"
    "pdc_pci_irt_size legacy_no_entries = (PDC_OK legacy_no_entries, 0)"
    by (simp_all add: legacy_unsupported_def pat_unsupported_def pat_no_entries_def
        legacy_no_entries_def legacy_platform_def example_platform_def empty_irt_def)
  from h iosapic_init_soft_fail_legacy [of legacy_unsupported empty_irt]
  have r1: "iosapic_init legacy_unsupported empty_irt
              = Inr (\<lparr>irt_cell = None, irt_num_entry = 0\<rparr>, False)"
    by blast
  have r0: "fst (pdc_pci_irt_size legacy_platform) = PDC_OK legacy_platform"
    "iosapic_init legacy_platform empty_irt
       = Inr (\<lparr>irt_cell = Some [example_entry], irt_num_entry = 1\<rparr>, False)"
    by (simp_all add: iosapic_init_def iosapic_load_irt_def legacy_platform_def
        example_platform_def empty_irt_def iosapic_alloc_irt_def ulong_wrap_def Let_def
        ulong_to_int_def int_to_size_t_def)
  from h iosapic_init_soft_fail_legacy [of pat_unsupported empty_irt]
  have r2: "iosapic_init pat_unsupported empty_irt = Inl Bug"
    by blast
  from h iosapic_init_soft_fail_legacy [of pat_no_entries empty_irt]
  have r3: "iosapic_init pat_no_entries empty_irt = Inl Bug"
    by blast
  from h iosapic_init_soft_fail_legacy [of legacy_no_entries empty_irt]
  have r4: "iosapic_init legacy_no_entries empty_irt = Inl Bug"
    by blast
  from h r0 r1 r2 r3 r4 show ?thesis by blast
qed

text \<open>
  The claim C4 as worded fails: under PAT the status of the fill call is only checked by
  \<open>WARN_ON\<close>, so the load returns the entry count and \<open>iosapic_init\<close> keeps the table,
  whatever the failed call left in it.
\<close>

theorem iosapic_init_pat_fill_failure_counterexample:
  "iosapic_init pat_fill_fails empty_irt =
     Inr (\<lparr>irt_cell = Some [example_entry\<lparr>entry_type := 0\<rparr>], irt_num_entry = 1\<rparr>, True)"
  by (simp add: iosapic_init_def iosapic_load_irt_def pat_fill_fails_def example_platform_def
      empty_irt_def iosapic_init_cell_def iosapic_alloc_irt_def ulong_wrap_def Let_def ulong_to_int_def
      int_to_size_t_def)

text \<open>
  C4 (amended): under the legacy protocol, if the size query succeeds with a non-zero
  count and the table memory is allocated but the fill query fails, the load halts at
  \<open>BUG_ON\<close> and so does the startup path. Under PAT the same failure raises a warning only:
  the load returns the entry count and the startup path stores the table as loaded.
\<close>

theorem iosapic_load_irt_fill_failure:
  "(\<not> is_pdc_pat pf \<and> irt_cell st = None \<and> pdc_pci_irt_size pf = (PDC_OK pf, n) \<and> n \<noteq> 0 \<and>
    iosapic_alloc_irt pf (ulong_to_int n) \<noteq> 0 \<and> fst (pdc_pci_irt pf n) \<noteq> PDC_OK pf \<longrightarrow>
      iosapic_load_irt pf st cell_num = Inl Bug \<and> iosapic_init pf st = Inl Bug) \<and>
   (is_pdc_pat pf \<and> pdc_pat_get_irt_size pf (iosapic_init_cell pf) = (PDC_OK pf, n) \<and>
    n \<noteq> 0 \<and> n < 2 ^ 31 \<and> iosapic_alloc_irt pf (ulong_to_int n) \<noteq> 0 \<and>
    fst (pdc_pat_get_irt pf (iosapic_init_cell pf)) \<noteq> PDC_OK pf \<longrightarrow>
      iosapic_load_irt pf st (iosapic_init_cell pf) =
        Inr \<lparr>load_count = int n,
             load_table = Some (snd (pdc_pat_get_irt pf (iosapic_init_cell pf))),
             load_warned = True\<rparr> \<and>
      iosapic_init pf st =
        Inr (\<lparr>irt_cell = Some (snd (pdc_pat_get_irt pf (iosapic_init_cell pf))),
              irt_num_entry = n\<rparr>, True))"
proof (intro conjI impI)
  assume a: "\<not> is_pdc_pat pf \<and> irt_cell st = None \<and> pdc_pci_irt_size pf = (PDC_OK pf, n) \<and>
    n \<noteq> 0 \<and> iosapic_alloc_irt pf (ulong_to_int n) \<noteq> 0 \<and> fst (pdc_pci_irt pf n) \<noteq> PDC_OK pf"
  then have l: "iosapic_load_irt pf st c = Inl Bug" for c
    by (simp add: iosapic_load_irt_def split_beta)
  from l show "iosapic_load_irt pf st cell_num = Inl Bug" .
  from l show "iosapic_init pf st = Inl Bug"
    by (simp add: iosapic_init_def)
next
  let ?c = "iosapic_init_cell pf"
  assume a: "is_pdc_pat pf \<and> pdc_pat_get_irt_size pf ?c = (PDC_OK pf, n) \<and>
    n \<noteq> 0 \<and> n < 2 ^ 31 \<and> iosapic_alloc_irt pf (ulong_to_int n) \<noteq> 0 \<and>
    fst (pdc_pat_get_irt pf ?c) \<noteq> PDC_OK pf"
  then have lt: "n < 2 ^ 31" by simp
  have n: "ulong_to_int n = int n" "int_to_size_t pf (ulong_to_int n) = n"
    by (rule ulong_to_int_small [OF lt], rule count_roundtrip [OF lt])
  from a n(1) show l: "iosapic_load_irt pf st ?c =
        Inr \<lparr>load_count = int n, load_table = Some (snd (pdc_pat_get_irt pf ?c)),
             load_warned = True\<rparr>"
    by (simp add: iosapic_load_irt_def split_beta)
  from a n(2) show "iosapic_init pf st =
        Inr (\<lparr>irt_cell = Some (snd (pdc_pat_get_irt pf ?c)), irt_num_entry = n\<rparr>, True)"
    by (simp add: iosapic_init_def l flip: n(1))
qed

theorem iosapic_load_irt_fill_failure_witness:
  "\<not> is_pdc_pat legacy_fill_fails \<and> irt_cell empty_irt = None \<and>
   pdc_pci_irt_size legacy_fill_fails = (PDC_OK legacy_fill_fails, 1) \<and>
   iosapic_alloc_irt legacy_fill_fails (ulong_to_int 1) \<noteq> 0 \<and>
   fst (pdc_pci_irt legacy_fill_fails 1) \<noteq> PDC_OK legacy_fill_fails \<and>
   iosapic_init legacy_fill_fails empty_irt = Inl Bug \<and>
   is_pdc_pat pat_fill_fails \<and>
   pdc_pat_get_irt_size pat_fill_fails (iosapic_init_cell pat_fill_fails)
     = (PDC_OK pat_fill_fails, 1) \<and>
   iosapic_alloc_irt pat_fill_fails (ulong_to_int 1) \<noteq> 0 \<and>
   fst (pdc_pat_get_irt pat_fill_fails (iosapic_init_cell pat_fill_fails))
     \<noteq> PDC_OK pat_fill_fails \<and>
   iosapic_init pat_fill_fails example_irt =
     Inr (\<lparr>irt_cell = Some (snd (pdc_pat_get_irt pat_fill_fails
                                      (iosapic_init_cell pat_fill_fails))),
           irt_num_entry = 1\<rparr>, True)"
proof -
  have h: "\<not> is_pdc_pat legacy_fill_fails" "irt_cell empty_irt = None"
    "pdc_pci_irt_size legacy_fill_fails = (PDC_OK legacy_fill_fails, 1)"
    "iosapic_alloc_irt legacy_fill_fails (ulong_to_int 1) \<noteq> 0"
    "fst (pdc_pci_irt legacy_fill_fails 1) \<noteq> PDC_OK legacy_fill_fails"
    "is_pdc_pat pat_fill_fails"
    "pdc_pat_get_irt_size pat_fill_fails (iosapic_init_cell pat_fill_fails)
       = (PDC_OK pat_fill_fails, 1)"
    "iosapic_alloc_irt pat_fill_fails (ulong_to_int 1) \<noteq> 0"
    "fst (pdc_pat_get_irt pat_fill_fails (iosapic_init_cell pat_fill_fails))
       \<noteq> PDC_OK pat_fill_fails"
    by (simp_all add: legacy_fill_fails_def pat_fill_fails_def legacy_platform_def
        example_platform_def empty_irt_def iosapic_alloc_irt_def ulong_wrap_def Let_def)
  have n: "(1::nat) \<noteq> 0" "(1::nat) < 2 ^ 31"
    by simp_all
  from h n iosapic_load_irt_fill_failure [of legacy_fill_fails empty_irt 1]
  have r1: "iosapic_init legacy_fill_fails empty_irt = Inl Bug"
    by blast
  from h n iosapic_load_irt_fill_failure [of pat_fill_fails example_irt 1]
  have r2: "iosapic_init pat_fill_fails example_irt =
     Inr (\<lparr>irt_cell = Some (snd (pdc_pat_get_irt pat_fill_fails
                                      (iosapic_init_cell pat_fill_fails))),
           irt_num_entry = 1\<rparr>, True)"
    by blast
  from h r1 r2 show ?thesis by blast
qed

subsection \<open>Registration and lookup\<close>

lemma irt_find_loop_find:
  "irt_find_loop k pf hpa (irq_devno_of k slot pin) es = find (irte_matches k pf hpa slot pin) es"
  by (induction es) (simp_all add: irte_matches_def)

lemma register_loop_None:
  "(register_loop pf hpa cnt es = None) = (\<forall>e \<in> set es. \<not> COMPARE_IRTE_ADDR pf e hpa)"
  by (induction es arbitrary: cnt) simp_all

lemma max_entry_range: "0 \<le> IOSAPIC_IRDT_MAX_ENTRY ver \<and> IOSAPIC_IRDT_MAX_ENTRY ver < 256"
proof -
  let ?w = "drop_bit 16 (ver AND 0x00ff0000) :: u32"
  have e: "?w = ?w AND 0xff"
    by (rule bit_word_eqI) (auto simp add: bit_simps)
  have "?w \<le> 0xff" by (subst e) (rule word_and_le1)
  then have u: "uint ?w \<le> 255" by (simp add: word_le_def)
  have "sint ?w = uint ?w"
    unfolding sint_uint
  proof (rule signed_take_bit_int_eq_self)
    have "- (2 ^ (LENGTH(32) - Suc 0)) \<le> (0::int)" by simp
    also have "0 \<le> uint ?w" by (rule uint_nonnegative)
    finally show "- (2 ^ (LENGTH(32) - Suc 0)) \<le> uint ?w" .
    have "(255::int) < 2 ^ (LENGTH(32) - Suc 0)" by simp
    with u show "uint ?w < 2 ^ (LENGTH(32) - Suc 0)" by (rule le_less_trans)
  qed
  with u show ?thesis
    by (simp add: IOSAPIC_IRDT_MAX_ENTRY_def IOSAPIC_MAX_ENTRY_SHIFT_def IOSAPIC_MAX_ENTRY_MASK_def)
qed

lemma irq_devno_exact:
  "1 \<le> uint pin \<Longrightarrow> push_bit (IRT_DEV_SHIFT k) (uint slot) OR (uint pin - 1) < 256 \<Longrightarrow>
   uint (irq_devno_of k slot pin) = push_bit (IRT_DEV_SHIFT k) (uint slot) OR (uint pin - 1)"
  by (simp add: irq_devno_of_def uint_word_of_int)

text \<open>
  The claim C1 as worded fails: on the empty table the search loop ends with
  \<open>cnt = irt_num_entry = 0\<close>, so \<open>cnt >= irt_num_entry\<close> holds and the function returns
  \<open>NULL\<close>, although both allocations would succeed.
\<close>

theorem iosapic_register_empty_counterexample:
  "iosapic_register example_platform empty_irt 0x1000 sys0 = Inr (None, sys0)"
  by (simp add: iosapic_register_def irt_entries_def empty_irt_def)

text \<open>
  C1 (amended): \<open>iosapic_register(hpa)\<close> returns none whenever none of the loaded entries
  has a destination address matching \<open>hpa\<close>, which includes the empty table. When some
  entry matches and both allocations succeed it returns a new controller instance for
  \<open>hpa\<close> whose line count is the version word's maximum-entry field plus one and whose
  vectors are unbound and carry their line index.
\<close>

theorem iosapic_register_listed_only:
  "(irt_entries st = [] \<longrightarrow> iosapic_register pf st hpa s = Inr (None, s)) \<and>
   ((\<forall>e \<in> set (irt_entries st). \<not> COMPARE_IRTE_ADDR pf e hpa) \<longrightarrow>
      iosapic_register pf st hpa s = Inr (None, s)) \<and>
   ((\<exists>e \<in> set (irt_entries st). COMPARE_IRTE_ADDR pf e hpa) \<and> kzalloc_isi_ok pf hpa \<and>
    kcalloc_vectors_ok pf hpa
      (IOSAPIC_IRDT_MAX_ENTRY (fst (iosapic_rd_version pf (ioremap_nocache pf hpa) s)) + 1) \<longrightarrow>
      (\<exists>isi s'. iosapic_register pf st hpa s = Inr (Some isi, s') \<and>
         isi_hpa isi = hpa \<and> addr isi = ioremap_nocache pf hpa \<and>
         isi_num_vectors isi =
           IOSAPIC_IRDT_MAX_ENTRY (fst (iosapic_rd_version pf (ioremap_nocache pf hpa) s)) + 1 \<and>
         int (length (isi_vector isi)) = isi_num_vectors isi \<and>
         (\<forall>n < length (isi_vector isi).
            irte (isi_vector isi ! n) = None \<and> unat (irqline (isi_vector isi ! n)) = n)))"
proof (intro conjI impI)
  assume "irt_entries st = []"
  then show "iosapic_register pf st hpa s = Inr (None, s)"
    by (simp add: iosapic_register_def)
next
  assume "\<forall>e \<in> set (irt_entries st). \<not> COMPARE_IRTE_ADDR pf e hpa"
  then have "register_loop pf hpa 0 (irt_entries st) = None"
    by (simp add: register_loop_None)
  then show "iosapic_register pf st hpa s = Inr (None, s)"
    by (simp add: iosapic_register_def)
next
  let ?r = "iosapic_rd_version pf (ioremap_nocache pf hpa) s"
  let ?nv = "IOSAPIC_IRDT_MAX_ENTRY (fst ?r) + 1"
  assume a: "(\<exists>e \<in> set (irt_entries st). COMPARE_IRTE_ADDR pf e hpa) \<and> kzalloc_isi_ok pf hpa \<and>
    kcalloc_vectors_ok pf hpa ?nv"
  then have "register_loop pf hpa 0 (irt_entries st) \<noteq> None"
    by (simp add: register_loop_None)
  then obtain cnt where c: "register_loop pf hpa 0 (irt_entries st) = Some cnt"
    by blast
  have nv: "0 < ?nv" "?nv \<le> 256"
    using max_entry_range [of "fst ?r"] by simp_all
  have line: "unat (word_of_int (int n) :: u8) = n" if "n < nat ?nv" for n
  proof -
    from that nv have "n < 256" by linarith
    then show ?thesis by (simp add: unat_of_nat)
  qed
  show "\<exists>isi s'. iosapic_register pf st hpa s = Inr (Some isi, s') \<and>
         isi_hpa isi = hpa \<and> addr isi = ioremap_nocache pf hpa \<and>
         isi_num_vectors isi =
           IOSAPIC_IRDT_MAX_ENTRY (fst (iosapic_rd_version pf (ioremap_nocache pf hpa) s)) + 1 \<and>
         int (length (isi_vector isi)) = isi_num_vectors isi \<and>
         (\<forall>n < length (isi_vector isi).
            irte (isi_vector isi ! n) = None \<and> unat (irqline (isi_vector isi ! n)) = n)"
    using a c nv line
    by (simp add: iosapic_register_def split_beta Let_def new_vector_def)
qed

theorem iosapic_register_listed_only_witness:
  "irt_entries empty_irt = [] \<and>
   iosapic_register example_platform empty_irt 0x1000 sys0 = Inr (None, sys0) \<and>
   \<not> (\<exists>e \<in> set (irt_entries example_irt). COMPARE_IRTE_ADDR example_platform e 0x2000) \<and>
   iosapic_register example_platform example_irt 0x2000 sys0 = Inr (None, sys0) \<and>
   (\<exists>e \<in> set (irt_entries example_irt). COMPARE_IRTE_ADDR example_platform e 0x1000) \<and>
   (\<exists>isi s'. iosapic_register example_platform example_irt 0x1000 sys0 = Inr (Some isi, s') \<and>
      isi_hpa isi = 0x1000 \<and> length (isi_vector isi) = 7)"
proof -
  have e: "irt_entries empty_irt = []"
    by (simp add: irt_entries_def empty_irt_def)
  have n: "\<forall>e \<in> set (irt_entries example_irt). \<not> COMPARE_IRTE_ADDR example_platform e 0x2000"
    by (simp add: irt_entries_def example_irt_def COMPARE_IRTE_ADDR_def example_platform_def
        example_entry_def)
  have y: "\<exists>e \<in> set (irt_entries example_irt). COMPARE_IRTE_ADDR example_platform e 0x1000"
    by (simp add: irt_entries_def example_irt_def COMPARE_IRTE_ADDR_def example_platform_def
        example_entry_def)
  have k: "kzalloc_isi_ok example_platform 0x1000"
    "\<And>n. kcalloc_vectors_ok example_platform 0x1000 n"
    by (simp_all add: example_platform_def)
  have v: "IOSAPIC_IRDT_MAX_ENTRY (fst (iosapic_rd_version example_platform
             (ioremap_nocache example_platform 0x1000) sys0)) + 1 = 7"
    by (simp add: iosapic_rd_version_def iosapic_read_def readl_def writel_def Let_def
        example_platform_def IOSAPIC_IRDT_MAX_ENTRY_def IOSAPIC_MAX_ENTRY_SHIFT_def
        IOSAPIC_MAX_ENTRY_MASK_def)
  note t1 = iosapic_register_listed_only [of empty_irt example_platform "0x1000" sys0]
  note t2 = iosapic_register_listed_only [of example_irt example_platform "0x2000" sys0]
  note t3 = iosapic_register_listed_only [of example_irt example_platform "0x1000" sys0]
  from t1 e have r1: "iosapic_register example_platform empty_irt 0x1000 sys0 = Inr (None, sys0)"
    by blast
  from t2 n have r2: "iosapic_register example_platform example_irt 0x2000 sys0 = Inr (None, sys0)"
    by blast
  from t3 y k v have r3: "\<exists>isi s'. iosapic_register example_platform example_irt 0x1000 sys0 = Inr (Some isi, s') \<and>
      isi_hpa isi = 0x1000 \<and> length (isi_vector isi) = 7"
    by (simp only: k simp_thms) auto
  from e r1 n r2 y r3 show ?thesis by blast
qed


text \<open>
  The claim C2 as worded fails where the encoding does not fit a byte: for slot 67 and
  pin 2 the integer is 269, which no masked field equals, but the code stores it in
  \<open>u8 irq_devno\<close> as 13 and returns the entry of slot 3, pin 2.
\<close>

theorem irt_find_irqline_wide_slot_counterexample:
  "irt_find_irqline example_consts example_platform example_irt example_isi 67 2
     = Some example_entry \<and>
   \<not> (\<exists>e \<in> set (irt_entries example_irt).
        irte_matches_claimed example_consts example_platform (isi_hpa example_isi) 67 2 e)"
  by (simp add: irt_find_irqline_def irt_entries_def example_irt_def example_isi_def
      irq_devno_of_def irte_matches_claimed_def example_consts_def example_entry_def
      COMPARE_IRTE_ADDR_def example_platform_def)

text \<open>
  C2 (amended): \<open>irt_find_irqline\<close> returns the first entry, in table order, whose three
  tags equal the expected constants, whose destination address equals the controller's
  under \<open>COMPARE_IRTE_ADDR\<close>, and whose masked \<open>src_bus_irq_devno\<close> equals the low byte of
  \<open>(slot << IRT_DEV_SHIFT) | (pin - 1)\<close>, the value the code keeps in \<open>u8 irq_devno\<close>; it
  returns none exactly when no entry matches, and an entry it returns has passed every tag
  check. For \<open>pin >= 1\<close> and an encoding below 256 the byte is the integer itself, and
  the lookup is the first match of the claim's own condition.
\<close>

theorem irt_find_irqline_first_match:
  "irt_find_irqline k pf st isi slot pin =
     find (irte_matches k pf (isi_hpa isi) slot pin) (irt_entries st) \<and>
   ((irt_find_irqline k pf st isi slot pin = None) =
      (\<forall>e \<in> set (irt_entries st). \<not> irte_matches k pf (isi_hpa isi) slot pin e)) \<and>
   (\<forall>e. irt_find_irqline k pf st isi slot pin = Some e \<longrightarrow>
      uint (entry_type e) = IRT_IOSAPIC_TYPE k \<and>
      uint (entry_length e) = IRT_IOSAPIC_LENGTH k \<and>
      uint (interrupt_type e) = IRT_VECTORED_INTR k \<and>
      (\<exists>n < length (irt_entries st).
         irt_entries st ! n = e \<and> irte_matches k pf (isi_hpa isi) slot pin e \<and>
         (\<forall>m < n. \<not> irte_matches k pf (isi_hpa isi) slot pin (irt_entries st ! m)))) \<and>
   (1 \<le> uint pin \<and> push_bit (IRT_DEV_SHIFT k) (uint slot) OR (uint pin - 1) < 256 \<longrightarrow>
      uint (irq_devno_of k slot pin) = push_bit (IRT_DEV_SHIFT k) (uint slot) OR (uint pin - 1) \<and>
      irt_find_irqline k pf st isi slot pin =
        find (irte_matches_claimed k pf (isi_hpa isi) slot pin) (irt_entries st))"
proof -
  let ?P = "irte_matches k pf (isi_hpa isi) slot pin"
  have f: "irt_find_irqline k pf st isi slot pin = find ?P (irt_entries st)"
    by (simp add: irt_find_irqline_def irt_find_loop_find)
  have n: "(find ?P (irt_entries st) = None) = (\<forall>e \<in> set (irt_entries st). \<not> ?P e)"
    by (auto simp add: find_None_iff)
  have s: "uint (entry_type e) = IRT_IOSAPIC_TYPE k \<and>
      uint (entry_length e) = IRT_IOSAPIC_LENGTH k \<and>
      uint (interrupt_type e) = IRT_VECTORED_INTR k \<and>
      (\<exists>n < length (irt_entries st).
         irt_entries st ! n = e \<and> ?P e \<and> (\<forall>m < n. \<not> ?P (irt_entries st ! m)))"
    if "find ?P (irt_entries st) = Some e" for e
  proof -
    from that obtain i where i: "i < length (irt_entries st)" "?P (irt_entries st ! i)"
      "e = irt_entries st ! i" "\<forall>j < i. \<not> ?P (irt_entries st ! j)"
      unfolding find_Some_iff by blast
    from i(2,3) have "?P e" by simp
    then have "uint (entry_type e) = IRT_IOSAPIC_TYPE k"
      "uint (entry_length e) = IRT_IOSAPIC_LENGTH k"
      "uint (interrupt_type e) = IRT_VECTORED_INTR k"
      by (simp_all add: irte_matches_def)
    with i \<open>?P e\<close> show ?thesis by blast
  qed
  have c: "irt_find_irqline k pf st isi slot pin =
             find (irte_matches_claimed k pf (isi_hpa isi) slot pin) (irt_entries st)"
    if "1 \<le> uint pin \<and> push_bit (IRT_DEV_SHIFT k) (uint slot) OR (uint pin - 1) < 256"
  proof -
    from that irq_devno_exact [of pin k slot]
    have "?P = irte_matches_claimed k pf (isi_hpa isi) slot pin"
      by (simp add: irte_matches_def irte_matches_claimed_def fun_eq_iff)
    with f show ?thesis by simp
  qed
  from f n s c irq_devno_exact [of pin k slot] show ?thesis
    by simp
qed

theorem irt_find_irqline_first_match_witness:
  "irt_find_irqline example_consts example_platform example_irt example_isi 3 2
     = Some example_entry \<and>
   irt_find_irqline example_consts example_platform example_irt example_isi 3 1 = None \<and>
   \<not> (\<exists>e \<in> set (irt_entries example_irt).
      irte_matches example_consts example_platform (isi_hpa example_isi) 3 1 e) \<and>
   irt_entries example_irt ! 1 = example_entry \<and>
   \<not> irte_matches example_consts example_platform (isi_hpa example_isi) 3 2
       (irt_entries example_irt ! 0) \<and>
   uint (entry_type example_entry) = IRT_IOSAPIC_TYPE example_consts \<and>
   uint (entry_length example_entry) = IRT_IOSAPIC_LENGTH example_consts \<and>
   uint (interrupt_type example_entry) = IRT_VECTORED_INTR example_consts \<and>
   (1::int) \<le> uint (2::u8) \<and>
   push_bit (IRT_DEV_SHIFT example_consts) (uint (3::u8)) OR (uint (2::u8) - 1) < 256 \<and>
   uint (irq_devno_of example_consts 3 2) = 13 \<and>
   find (irte_matches_claimed example_consts example_platform (isi_hpa example_isi) 3 2)
     (irt_entries example_irt) = Some example_entry"
proof -
  note t = irt_find_irqline_first_match [of example_consts example_platform example_irt example_isi 3]
  have es: "irt_entries example_irt = [example_entry\<lparr>entry_type := 0\<rparr>, example_entry]"
    by (simp add: irt_entries_def example_irt_def)
  have m: "\<not> irte_matches example_consts example_platform (isi_hpa example_isi) 3 2
              (example_entry\<lparr>entry_type := 0\<rparr>)"
    "irte_matches example_consts example_platform (isi_hpa example_isi) 3 2 example_entry"
    "\<not> irte_matches example_consts example_platform (isi_hpa example_isi) 3 1
              (example_entry\<lparr>entry_type := 0\<rparr>)"
    "\<not> irte_matches example_consts example_platform (isi_hpa example_isi) 3 1 example_entry"
    by (simp_all add: irte_matches_def example_consts_def example_entry_def example_isi_def
        COMPARE_IRTE_ADDR_def example_platform_def irq_devno_of_def)
  have p: "(1::int) \<le> uint (2::u8)"
    "push_bit (IRT_DEV_SHIFT example_consts) (uint (3::u8)) OR (uint (2::u8) - 1) = 13"
    by (simp_all add: example_consts_def)
  from t [of 2] es m have r1:
    "irt_find_irqline example_consts example_platform example_irt example_isi 3 2
       = Some example_entry"
    by simp
  from t [of 1] es m have r2:
    "irt_find_irqline example_consts example_platform example_irt example_isi 3 1 = None"
    by simp
  from t [of 1] r2 have r3: "\<forall>e \<in> set (irt_entries example_irt).
      \<not> irte_matches example_consts example_platform (isi_hpa example_isi) 3 1 e"
    by blast
  from t [of 2] p have r4: "uint (irq_devno_of example_consts 3 2) = 13"
    by simp
  from t [of 2] r1 have r5: "uint (entry_type example_entry) = IRT_IOSAPIC_TYPE example_consts"
    "uint (entry_length example_entry) = IRT_IOSAPIC_LENGTH example_consts"
    "uint (interrupt_type example_entry) = IRT_VECTORED_INTR example_consts"
    by blast+
  from p have q: "1 \<le> uint (2::u8) \<and>
      push_bit (IRT_DEV_SHIFT example_consts) (uint (3::u8)) OR (uint (2::u8) - 1) < 256"
    by simp
  from t [of 2] q
  have "irt_find_irqline example_consts example_platform example_irt example_isi 3 2 =
          find (irte_matches_claimed example_consts example_platform (isi_hpa example_isi) 3 2)
            (irt_entries example_irt)"
    by blast
  with r1 have r6:
    "find (irte_matches_claimed example_consts example_platform (isi_hpa example_isi) 3 2)
       (irt_entries example_irt) = Some example_entry"
    by simp
  from r1 r2 r3 r4 r5 r6 es m p show ?thesis
    by simp
qed

subsection \<open>Pin translation\<close>

lemma locate_host_bus_last:
  "b \<noteq> Root_bus \<Longrightarrow>
   self_devfn (locate_host_bus b) = last (bridge_chain b) \<and> locate_host_bus b \<noteq> Root_bus"
proof (induction b rule: locate_host_bus.induct)
  case (1 d d' gp)
  then show ?case by simp
qed simp_all

lemma swizzle_range:
  "uint (pci_swizzle_interrupt_pin pf dev pin) - 1 = (uint pin + PCI_SLOT pf (devfn dev) - 1) mod 4"
proof -
  define m where "m = (uint pin + PCI_SLOT pf (devfn dev) - 1) mod 4"
  have r: "0 \<le> m" "m < 4" by (simp_all add: m_def)
  have "uint (word_of_int (m + 1) :: u8) = (m + 1) mod 2 ^ LENGTH(8)"
    by (rule uint_word_of_int)
  also from r have "\<dots> = m + 1"
    by (intro mod_pos_pos_trivial) simp_all
  finally have "uint (word_of_int (m + 1) :: u8) - 1 = m"
    by (simp only: add_diff_cancel_right')
  then show ?thesis
    by (simp only: pci_swizzle_interrupt_pin_def m_def)
qed

text \<open>
  C7: \<open>iosapic_xlate_pin\<close> returns none when the device's interrupt-pin byte is 0. For
  a device behind bridges, however many, the lookup uses the slot of the topmost bridge
  (the last of the chain, on the root bus) and the pin swizzled once with the device's
  own device number, so that the pin encoded in the lookup's device number is
  \<open>(pin + device_number - 1) mod 4\<close>. A device on the root bus is looked up with its own
  slot and its pin as read.
\<close>

theorem iosapic_xlate_pin_translation:
  "(cfg_interrupt_pin dev = 0 \<longrightarrow> iosapic_xlate_pin k pf st isi dev = None) \<and>
   (cfg_interrupt_pin dev \<noteq> 0 \<and> bus dev \<noteq> Root_bus \<longrightarrow>
      iosapic_xlate_pin k pf st isi dev =
        irt_find_irqline k pf st isi
          (word_of_int (PCI_SLOT pf (last (bridge_chain (bus dev)))))
          (pci_swizzle_interrupt_pin pf dev (cfg_interrupt_pin dev)) \<and>
      uint (pci_swizzle_interrupt_pin pf dev (cfg_interrupt_pin dev)) - 1 =
        (uint (cfg_interrupt_pin dev) + PCI_SLOT pf (devfn dev) - 1) mod 4 \<and>
      irq_devno_of k (word_of_int (PCI_SLOT pf (last (bridge_chain (bus dev)))))
          (pci_swizzle_interrupt_pin pf dev (cfg_interrupt_pin dev)) =
        word_of_int
          (push_bit (IRT_DEV_SHIFT k)
             (uint (word_of_int (PCI_SLOT pf (last (bridge_chain (bus dev)))) :: u8)) OR
           (uint (cfg_interrupt_pin dev) + PCI_SLOT pf (devfn dev) - 1) mod 4)) \<and>
   (cfg_interrupt_pin dev \<noteq> 0 \<and> bus dev = Root_bus \<longrightarrow>
      iosapic_xlate_pin k pf st isi dev =
        irt_find_irqline k pf st isi (word_of_int (PCI_SLOT pf (devfn dev)))
          (cfg_interrupt_pin dev))"
proof (intro conjI impI)
  assume "cfg_interrupt_pin dev = 0"
  then show "iosapic_xlate_pin k pf st isi dev = None"
    by (simp add: iosapic_xlate_pin_def)
next
  assume a: "cfg_interrupt_pin dev \<noteq> 0 \<and> bus dev \<noteq> Root_bus"
  then have "self_devfn (locate_host_bus (bus dev)) = last (bridge_chain (bus dev))"
    by (simp add: locate_host_bus_last)
  with a show "iosapic_xlate_pin k pf st isi dev =
        irt_find_irqline k pf st isi
          (word_of_int (PCI_SLOT pf (last (bridge_chain (bus dev)))))
          (pci_swizzle_interrupt_pin pf dev (cfg_interrupt_pin dev))"
    by (simp add: iosapic_xlate_pin_def Let_def)
  show "uint (pci_swizzle_interrupt_pin pf dev (cfg_interrupt_pin dev)) - 1 =
        (uint (cfg_interrupt_pin dev) + PCI_SLOT pf (devfn dev) - 1) mod 4"
    by (rule swizzle_range)
  then show "irq_devno_of k (word_of_int (PCI_SLOT pf (last (bridge_chain (bus dev)))))
          (pci_swizzle_interrupt_pin pf dev (cfg_interrupt_pin dev)) =
        word_of_int
          (push_bit (IRT_DEV_SHIFT k)
             (uint (word_of_int (PCI_SLOT pf (last (bridge_chain (bus dev)))) :: u8)) OR
           (uint (cfg_interrupt_pin dev) + PCI_SLOT pf (devfn dev) - 1) mod 4)"
    by (simp only: irq_devno_of_def)
next
  assume "cfg_interrupt_pin dev \<noteq> 0 \<and> bus dev = Root_bus"
  then show "iosapic_xlate_pin k pf st isi dev =
        irt_find_irqline k pf st isi (word_of_int (PCI_SLOT pf (devfn dev)))
          (cfg_interrupt_pin dev)"
    by (simp add: iosapic_xlate_pin_def Let_def)
qed

lemma example_lookup:
  "irt_find_irqline example_consts example_platform example_irt example_isi 3 2
     = Some example_entry"
  by (simp add: irt_find_irqline_def irt_entries_def example_irt_def example_isi_def
      irq_devno_of_def example_consts_def example_entry_def COMPARE_IRTE_ADDR_def
      example_platform_def)

theorem iosapic_xlate_pin_translation_witness:
  "cfg_interrupt_pin no_pin_dev = 0 \<and>
   iosapic_xlate_pin example_consts example_platform example_irt example_isi no_pin_dev = None \<and>
   cfg_interrupt_pin bridged_dev \<noteq> 0 \<and> bus bridged_dev \<noteq> Root_bus \<and>
   last (bridge_chain (bus bridged_dev)) = 0x18 \<and>
   uint (pci_swizzle_interrupt_pin example_platform bridged_dev (cfg_interrupt_pin bridged_dev))
     = 2 \<and>
   iosapic_xlate_pin example_consts example_platform example_irt example_isi bridged_dev
     = Some example_entry \<and>
   cfg_interrupt_pin plain_dev \<noteq> 0 \<and> bus plain_dev = Root_bus \<and>
   iosapic_xlate_pin example_consts example_platform example_irt example_isi plain_dev
     = Some example_entry"
proof -
  note t = iosapic_xlate_pin_translation [of _ example_consts example_platform example_irt example_isi]
  have h: "cfg_interrupt_pin no_pin_dev = 0"
    "cfg_interrupt_pin bridged_dev \<noteq> 0" "bus bridged_dev \<noteq> Root_bus"
    "cfg_interrupt_pin plain_dev \<noteq> 0" "bus plain_dev = Root_bus"
    by (simp_all add: no_pin_dev_def bridged_dev_def plain_dev_def)
  have v: "last (bridge_chain (bus bridged_dev)) = 0x18"
    "(word_of_int (PCI_SLOT example_platform 0x18) :: u8) = 3"
    "(uint (cfg_interrupt_pin bridged_dev) + PCI_SLOT example_platform (devfn bridged_dev) - 1)
       mod 4 = 1"
    "devfn plain_dev = 0x18" "cfg_interrupt_pin plain_dev = 2"
    by (simp_all add: bridged_dev_def plain_dev_def example_platform_def)
  from t [of no_pin_dev] h
  have r1: "iosapic_xlate_pin example_consts example_platform example_irt example_isi no_pin_dev
              = None"
    by blast
  from t [of bridged_dev] h v(3)
  have p: "uint (pci_swizzle_interrupt_pin example_platform bridged_dev
                   (cfg_interrupt_pin bridged_dev)) = 2"
    by simp
  then have p': "pci_swizzle_interrupt_pin example_platform bridged_dev
                   (cfg_interrupt_pin bridged_dev) = 2"
    by (intro word_uint_eqI) simp
  from t [of bridged_dev] h v p' example_lookup
  have r2: "iosapic_xlate_pin example_consts example_platform example_irt example_isi bridged_dev
              = Some example_entry"
    by simp
  from t [of plain_dev] h v example_lookup
  have r3: "iosapic_xlate_pin example_consts example_platform example_irt example_isi plain_dev
              = Some example_entry"
    by simp
  from h v(1) p r1 r2 r3 show ?thesis by blast
qed

subsection \<open>Register encoding\<close>

lemma flag_bits:
  "bit (0x2000 :: u32) n = (n = 13)" "bit (0x8000 :: u32) n = (n = 15)"
  "bit (0x10000 :: u32) n = (n = 16)"
proof -
  have e: "(0x2000 :: u32) = 2 ^ 13" "(0x8000 :: u32) = 2 ^ 15" "(0x10000 :: u32) = 2 ^ 16"
    by simp_all
  have "bit (2 ^ 13 :: u32) n = (n = 13)" "bit (2 ^ 15 :: u32) n = (n = 15)"
    "bit (2 ^ 16 :: u32) n = (n = 16)"
    by (auto simp only: bit_exp_iff possible_bit_word) simp_all
  then show "bit (0x2000 :: u32) n = (n = 13)" "bit (0x8000 :: u32) n = (n = 15)"
    "bit (0x10000 :: u32) n = (n = 16)"
    by (simp_all only: e)
qed

lemma repack_masks:
  "(0x0ff00000 :: 'a::len word) = push_bit 20 (mask 8)"
  "(0x000ff000 :: 'a::len word) = push_bit 12 (mask 8)"
  by (simp_all add: mask_eq_exp_minus_1 push_bit_eq_mult)

lemma repack_ucast:
  "drop_bit 4 ((ucast (a :: 64 word) :: u32) AND 0x0ff00000) OR
     push_bit 12 ((ucast a :: u32) AND 0x000ff000) =
   ucast (drop_bit 4 (a AND 0x0ff00000) OR push_bit 12 (a AND 0x000ff000))"
  unfolding repack_masks
  apply (rule bit_word_eqI)
  apply (auto simp add: bit_simps)
  done

lemma repack_uint:
  "uint (drop_bit 4 ((ucast (a :: 64 word) :: u32) AND 0x0ff00000) OR
     push_bit 12 ((ucast a :: u32) AND 0x000ff000)) =
   uint (drop_bit 4 (a AND 0x0ff00000) OR push_bit 12 (a AND 0x000ff000))"
proof -
  define x where "x = drop_bit 4 (a AND 0x0ff00000) OR push_bit 12 (a AND 0x000ff000)"
  have "take_bit 32 x = x"
    unfolding x_def repack_masks
    by (rule bit_word_eqI) (auto simp add: bit_simps)
  moreover have "uint (ucast x :: u32) = uint (take_bit 32 x)"
    by (simp add: unsigned_ucast_eq unsigned_take_bit_eq)
  ultimately have "uint (ucast x :: u32) = uint x"
    by simp
  then show ?thesis
    by (simp only: repack_ucast x_def)
qed

lemma wr_irt_entry_trace:
  "\<exists>v1 v2. iosapic_wr_irt_entry pf isp vi dp0 dp1 s =
     s\<lparr>mmio := mmio s @
       [Writel (IOSAPIC_IRDT_ENTRY (irqline vi)) (addr isp + IOSAPIC_REG_SELECT),
        Writel dp0 (addr isp + IOSAPIC_REG_WINDOW),
        Readl (addr isp + IOSAPIC_REG_WINDOW) v1,
        Writel (IOSAPIC_IRDT_ENTRY_HI (irqline vi)) (addr isp + IOSAPIC_REG_SELECT),
        Writel dp1 (addr isp + IOSAPIC_REG_WINDOW),
        Readl (addr isp + IOSAPIC_REG_WINDOW) v2]\<rparr>"
  apply (simp add: iosapic_wr_irt_entry_def iosapic_write_def writel_def readl_def Let_def)
  apply (intro exI)
  apply (rule refl)
  done

lemma rd_irt_entry_trace:
  "\<exists>v0 v1. iosapic_rd_irt_entry pf isp vi s =
     ((v0, v1), s\<lparr>mmio := mmio s @
       [Writel (IOSAPIC_IRDT_ENTRY (irqline vi)) (addr isp + IOSAPIC_REG_SELECT),
        Readl (addr isp + IOSAPIC_REG_WINDOW) v0,
        Writel (IOSAPIC_IRDT_ENTRY_HI (irqline vi)) (addr isp + IOSAPIC_REG_SELECT),
        Readl (addr isp + IOSAPIC_REG_WINDOW) v1]\<rparr>)"
  by (simp add: iosapic_rd_irt_entry_def iosapic_read_def writel_def readl_def Let_def)

lemma select_not_window: "IOSAPIC_REG_SELECT \<noteq> IOSAPIC_REG_WINDOW"
  by (simp add: IOSAPIC_REG_SELECT_def IOSAPIC_REG_WINDOW_def)

text \<open>
  C5: for a bound vector the low word is the allocator's message data (as a \<open>u32\<close>) or-ed
  with \<open>0x2000\<close> exactly when the entry's masked polarity field equals active-low and with
  \<open>0x8000\<close> exactly when its trigger field equals level; bits 13 and 15 of the result say
  so whenever the data leaves them clear, and bit 16 is set only if the data sets it. The
  high word is the target address as a \<open>u32\<close> under PAT (the address itself when it fits
  32 bits) and the re-packed address
  \<open>((txn_addr & 0x0ff00000) >> 4) | ((txn_addr & 0x000ff000) << 12)\<close> under legacy
  firmware. Bit 16, \<open>0x10000\<close>, is the one \<open>iosapic_mask_irq\<close> adds to the low word it read.
\<close>

theorem iosapic_set_irt_data_encoding:
  "(irte vi = Some p \<longrightarrow>
    (\<exists>dp0 dp1. iosapic_set_irt_data k pf vi = Inr (dp0, dp1) \<and>
       dp0 = ucast (txn_data vi)
             OR (if (uint (polarity_trigger p) AND IRT_PO_MASK k) = IRT_ACTIVE_LO k
                 then 0x2000 else 0)
             OR (if (drop_bit (IRT_EL_SHIFT k) (uint (polarity_trigger p)) AND IRT_EL_MASK k)
                      = IRT_LEVEL_TRIG k
                 then 0x8000 else 0) \<and>
       (\<not> bit (txn_data vi) 13 \<longrightarrow>
          bit dp0 13 = ((uint (polarity_trigger p) AND IRT_PO_MASK k) = IRT_ACTIVE_LO k)) \<and>
       (\<not> bit (txn_data vi) 15 \<longrightarrow>
          bit dp0 15 = ((drop_bit (IRT_EL_SHIFT k) (uint (polarity_trigger p)) AND IRT_EL_MASK k)
                          = IRT_LEVEL_TRIG k)) \<and>
       bit dp0 16 = bit (txn_data vi) 16 \<and>
       (is_pdc_pat pf \<longrightarrow>
          dp1 = ucast (txn_addr vi) \<and>
          (txn_addr vi < 2 ^ 32 \<longrightarrow> uint dp1 = uint (txn_addr vi))) \<and>
       (\<not> is_pdc_pat pf \<longrightarrow>
          dp1 = ucast (drop_bit 4 (txn_addr vi AND 0x0ff00000) OR
                       push_bit 12 (txn_addr vi AND 0x000ff000)) \<and>
          uint dp1 = uint (drop_bit 4 (txn_addr vi AND 0x0ff00000) OR
                           push_bit 12 (txn_addr vi AND 0x000ff000))))) \<and>
   (\<exists>v0 v1 w0 w1. mmio (iosapic_mask_irq pf isp vi s) = mmio s @
        [Writel (IOSAPIC_IRDT_ENTRY (irqline vi)) (addr isp + IOSAPIC_REG_SELECT),
         Readl (addr isp + IOSAPIC_REG_WINDOW) v0,
         Writel (IOSAPIC_IRDT_ENTRY_HI (irqline vi)) (addr isp + IOSAPIC_REG_SELECT),
         Readl (addr isp + IOSAPIC_REG_WINDOW) v1,
         Writel (IOSAPIC_IRDT_ENTRY (irqline vi)) (addr isp + IOSAPIC_REG_SELECT),
         Writel (v0 OR 0x10000) (addr isp + IOSAPIC_REG_WINDOW),
         Readl (addr isp + IOSAPIC_REG_WINDOW) w0,
         Writel (IOSAPIC_IRDT_ENTRY_HI (irqline vi)) (addr isp + IOSAPIC_REG_SELECT),
         Writel v1 (addr isp + IOSAPIC_REG_WINDOW),
         Readl (addr isp + IOSAPIC_REG_WINDOW) w1])"
proof (intro conjI impI)
  let ?po = "(uint (polarity_trigger p) AND IRT_PO_MASK k) = IRT_ACTIVE_LO k"
  let ?el = "(drop_bit (IRT_EL_SHIFT k) (uint (polarity_trigger p)) AND IRT_EL_MASK k)
               = IRT_LEVEL_TRIG k"
  let ?dp0 = "ucast (txn_data vi) OR (if ?po then 0x2000 else 0) OR (if ?el then 0x8000 else 0) :: u32"
  let ?dp1 = "if is_pdc_pat pf then ucast (txn_addr vi)
              else drop_bit 4 ((ucast (txn_addr vi) :: u32) AND 0x0ff00000) OR
                   push_bit 12 ((ucast (txn_addr vi) :: u32) AND 0x000ff000)"
  assume b: "irte vi = Some p"
  have r: "iosapic_set_irt_data k pf vi = Inr (?dp0, ?dp1)"
    using b
    by (simp add: iosapic_set_irt_data_def Let_def IOSAPIC_IRDT_PO_LOW_def
        IOSAPIC_IRDT_LEVEL_TRIG_def or.commute or.left_commute)
  have b13: "\<not> bit (txn_data vi) 13 \<longrightarrow> bit ?dp0 13 = ?po"
    by (simp add: bit_or_iff bit_ucast_iff flag_bits)
  have b15: "\<not> bit (txn_data vi) 15 \<longrightarrow> bit ?dp0 15 = ?el"
    by (simp add: bit_or_iff bit_ucast_iff flag_bits)
  have b16: "bit ?dp0 16 = bit (txn_data vi) 16"
    by (simp add: bit_or_iff bit_ucast_iff flag_bits)
  have "uint (ucast (txn_addr vi) :: u32) = uint (txn_addr vi)" if "txn_addr vi < 2 ^ 32"
  proof -
    from that have "uint (txn_addr vi) < 2 ^ 32"
      by (simp add: word_less_def)
    then show ?thesis
      by (simp add: unsigned_ucast_eq take_bit_int_eq_self)
  qed
  then have pat: "is_pdc_pat pf \<longrightarrow>
          ?dp1 = ucast (txn_addr vi) \<and>
          (txn_addr vi < 2 ^ 32 \<longrightarrow> uint ?dp1 = uint (txn_addr vi))"
    by simp
  have leg: "\<not> is_pdc_pat pf \<longrightarrow>
          ?dp1 = ucast (drop_bit 4 (txn_addr vi AND 0x0ff00000) OR
                       push_bit 12 (txn_addr vi AND 0x000ff000)) \<and>
          uint ?dp1 = uint (drop_bit 4 (txn_addr vi AND 0x0ff00000) OR
                           push_bit 12 (txn_addr vi AND 0x000ff000))"
    using repack_ucast [of "txn_addr vi"] repack_uint [of "txn_addr vi"] by simp
  from r b13 b15 b16 pat leg show "\<exists>dp0 dp1. iosapic_set_irt_data k pf vi = Inr (dp0, dp1) \<and>
       dp0 = ucast (txn_data vi)
             OR (if (uint (polarity_trigger p) AND IRT_PO_MASK k) = IRT_ACTIVE_LO k
                 then 0x2000 else 0)
             OR (if (drop_bit (IRT_EL_SHIFT k) (uint (polarity_trigger p)) AND IRT_EL_MASK k)
                      = IRT_LEVEL_TRIG k
                 then 0x8000 else 0) \<and>
       (\<not> bit (txn_data vi) 13 \<longrightarrow>
          bit dp0 13 = ((uint (polarity_trigger p) AND IRT_PO_MASK k) = IRT_ACTIVE_LO k)) \<and>
       (\<not> bit (txn_data vi) 15 \<longrightarrow>
          bit dp0 15 = ((drop_bit (IRT_EL_SHIFT k) (uint (polarity_trigger p)) AND IRT_EL_MASK k)
                          = IRT_LEVEL_TRIG k)) \<and>
       bit dp0 16 = bit (txn_data vi) 16 \<and>
       (is_pdc_pat pf \<longrightarrow>
          dp1 = ucast (txn_addr vi) \<and>
          (txn_addr vi < 2 ^ 32 \<longrightarrow> uint dp1 = uint (txn_addr vi))) \<and>
       (\<not> is_pdc_pat pf \<longrightarrow>
          dp1 = ucast (drop_bit 4 (txn_addr vi AND 0x0ff00000) OR
                       push_bit 12 (txn_addr vi AND 0x000ff000)) \<and>
          uint dp1 = uint (drop_bit 4 (txn_addr vi AND 0x0ff00000) OR
                           push_bit 12 (txn_addr vi AND 0x000ff000)))"
    by blast
next
  obtain v0 v1 where r: "iosapic_rd_irt_entry pf isp vi s =
     ((v0, v1), s\<lparr>mmio := mmio s @
       [Writel (IOSAPIC_IRDT_ENTRY (irqline vi)) (addr isp + IOSAPIC_REG_SELECT),
        Readl (addr isp + IOSAPIC_REG_WINDOW) v0,
        Writel (IOSAPIC_IRDT_ENTRY_HI (irqline vi)) (addr isp + IOSAPIC_REG_SELECT),
        Readl (addr isp + IOSAPIC_REG_WINDOW) v1]\<rparr>)"
    using rd_irt_entry_trace by blast
  let ?s1 = "snd (iosapic_rd_irt_entry pf isp vi s)"
  obtain w0 w1 where w: "iosapic_wr_irt_entry pf isp vi (v0 OR 0x10000) v1 ?s1 =
     ?s1\<lparr>mmio := mmio ?s1 @
       [Writel (IOSAPIC_IRDT_ENTRY (irqline vi)) (addr isp + IOSAPIC_REG_SELECT),
        Writel (v0 OR 0x10000) (addr isp + IOSAPIC_REG_WINDOW),
        Readl (addr isp + IOSAPIC_REG_WINDOW) w0,
        Writel (IOSAPIC_IRDT_ENTRY_HI (irqline vi)) (addr isp + IOSAPIC_REG_SELECT),
        Writel v1 (addr isp + IOSAPIC_REG_WINDOW),
        Readl (addr isp + IOSAPIC_REG_WINDOW) w1]\<rparr>"
    using wr_irt_entry_trace by blast
  have "mmio (iosapic_mask_irq pf isp vi s) = mmio s @
        [Writel (IOSAPIC_IRDT_ENTRY (irqline vi)) (addr isp + IOSAPIC_REG_SELECT),
         Readl (addr isp + IOSAPIC_REG_WINDOW) v0,
         Writel (IOSAPIC_IRDT_ENTRY_HI (irqline vi)) (addr isp + IOSAPIC_REG_SELECT),
         Readl (addr isp + IOSAPIC_REG_WINDOW) v1,
         Writel (IOSAPIC_IRDT_ENTRY (irqline vi)) (addr isp + IOSAPIC_REG_SELECT),
         Writel (v0 OR 0x10000) (addr isp + IOSAPIC_REG_WINDOW),
         Readl (addr isp + IOSAPIC_REG_WINDOW) w0,
         Writel (IOSAPIC_IRDT_ENTRY_HI (irqline vi)) (addr isp + IOSAPIC_REG_SELECT),
         Writel v1 (addr isp + IOSAPIC_REG_WINDOW),
         Readl (addr isp + IOSAPIC_REG_WINDOW) w1]"
    using w unfolding iosapic_mask_irq_def Let_def IOSAPIC_IRDT_ENABLE_def r by simp
  then show "\<exists>v0 v1 w0 w1. mmio (iosapic_mask_irq pf isp vi s) = mmio s @
        [Writel (IOSAPIC_IRDT_ENTRY (irqline vi)) (addr isp + IOSAPIC_REG_SELECT),
         Readl (addr isp + IOSAPIC_REG_WINDOW) v0,
         Writel (IOSAPIC_IRDT_ENTRY_HI (irqline vi)) (addr isp + IOSAPIC_REG_SELECT),
         Readl (addr isp + IOSAPIC_REG_WINDOW) v1,
         Writel (IOSAPIC_IRDT_ENTRY (irqline vi)) (addr isp + IOSAPIC_REG_SELECT),
         Writel (v0 OR 0x10000) (addr isp + IOSAPIC_REG_WINDOW),
         Readl (addr isp + IOSAPIC_REG_WINDOW) w0,
         Writel (IOSAPIC_IRDT_ENTRY_HI (irqline vi)) (addr isp + IOSAPIC_REG_SELECT),
         Writel v1 (addr isp + IOSAPIC_REG_WINDOW),
         Readl (addr isp + IOSAPIC_REG_WINDOW) w1]"
    by blast
qed

theorem iosapic_set_irt_data_encoding_witness:
  "irte bound_vector = Some example_entry \<and>
   \<not> bit (txn_data bound_vector) 13 \<and> \<not> bit (txn_data bound_vector) 15 \<and>
   is_pdc_pat example_platform \<and>
   iosapic_set_irt_data example_consts example_platform bound_vector
     = Inr (0xa003, 0xfffa0000) \<and>
   \<not> is_pdc_pat legacy_platform \<and>
   iosapic_set_irt_data example_consts legacy_platform bound_vector
     = Inr (0xa003, 0xa0ff0000)"
proof -
  have b: "irte bound_vector = Some example_entry"
    by (simp add: bound_vector_def)
  have d: "\<not> bit (txn_data bound_vector) 13" "\<not> bit (txn_data bound_vector) 15"
    by (simp_all add: bound_vector_def)
  have p: "is_pdc_pat example_platform" "\<not> is_pdc_pat legacy_platform"
    by (simp_all add: example_platform_def legacy_platform_def)
  have v: "(uint (polarity_trigger example_entry) AND IRT_PO_MASK example_consts)
             = IRT_ACTIVE_LO example_consts"
    "(drop_bit (IRT_EL_SHIFT example_consts) (uint (polarity_trigger example_entry))
        AND IRT_EL_MASK example_consts) = IRT_LEVEL_TRIG example_consts"
    "txn_data bound_vector = 3" "txn_addr bound_vector = 0xfffa0000"
    by (simp_all add: example_entry_def example_consts_def bound_vector_def)
  from iosapic_set_irt_data_encoding
         [of bound_vector example_entry example_consts example_platform] b p v
  have r1: "iosapic_set_irt_data example_consts example_platform bound_vector
              = Inr (0xa003, 0xfffa0000)"
    by auto
  from iosapic_set_irt_data_encoding
         [of bound_vector example_entry example_consts legacy_platform] b p v
  have r2: "iosapic_set_irt_data example_consts legacy_platform bound_vector
              = Inr (0xa003, 0xa0ff0000)"
    by auto
  from b d p r1 r2 show ?thesis by blast
qed

subsection \<open>Register programming\<close>

text \<open>
  C10: programming one redirection entry issues exactly six accesses: select, window
  write of the low word, window read, select, window write of the high word, window read.
  In this sequence every write to the window is followed by a read of the window before
  any further write, so no two data writes reach the window without a flush read between.
\<close>

theorem iosapic_wr_irt_entry_flushes:
  "(\<exists>v1 v2. mmio (iosapic_wr_irt_entry pf isp vi dp0 dp1 s) = mmio s @
       [Writel (IOSAPIC_IRDT_ENTRY (irqline vi)) (addr isp + IOSAPIC_REG_SELECT),
        Writel dp0 (addr isp + IOSAPIC_REG_WINDOW),
        Readl (addr isp + IOSAPIC_REG_WINDOW) v1,
        Writel (IOSAPIC_IRDT_ENTRY_HI (irqline vi)) (addr isp + IOSAPIC_REG_SELECT),
        Writel dp1 (addr isp + IOSAPIC_REG_WINDOW),
        Readl (addr isp + IOSAPIC_REG_WINDOW) v2]) \<and>
   flush_ordered (addr isp + IOSAPIC_REG_WINDOW) False
     (drop (length (mmio s)) (mmio (iosapic_wr_irt_entry pf isp vi dp0 dp1 s)))"
proof -
  obtain v1 v2 where t: "iosapic_wr_irt_entry pf isp vi dp0 dp1 s =
     s\<lparr>mmio := mmio s @
       [Writel (IOSAPIC_IRDT_ENTRY (irqline vi)) (addr isp + IOSAPIC_REG_SELECT),
        Writel dp0 (addr isp + IOSAPIC_REG_WINDOW),
        Readl (addr isp + IOSAPIC_REG_WINDOW) v1,
        Writel (IOSAPIC_IRDT_ENTRY_HI (irqline vi)) (addr isp + IOSAPIC_REG_SELECT),
        Writel dp1 (addr isp + IOSAPIC_REG_WINDOW),
        Readl (addr isp + IOSAPIC_REG_WINDOW) v2]\<rparr>"
    using wr_irt_entry_trace by blast
  show ?thesis
    by (simp add: t select_not_window)
qed




text \<open>
  C9: when \<open>cpu_check_affinity\<close> resolves a destination processor, retargeting a bound
  line stores the new target address in the vector, reads both words of the line's
  redirection entry, and writes back the low word exactly as read (\<open>v0\<close>) next to the
  high word recomputed for the new target; it returns 0.
\<close>

theorem iosapic_set_affinity_irq_keeps_low_word:
  "0 \<le> cpu_check_affinity pf d_irq dest \<and> irte vi = Some p \<longrightarrow>
   (\<exists>v0 v1 dummy_d0 d1 w0 w1 s'.
      iosapic_set_irt_data k pf
        (vi\<lparr>txn_addr := txn_affinity_addr pf d_irq (cpu_check_affinity pf d_irq dest)\<rparr>)
        = Inr (dummy_d0, d1) \<and>
      iosapic_set_affinity_irq k pf isp d_irq vi dest s =
        Inr (0, vi\<lparr>txn_addr := txn_affinity_addr pf d_irq (cpu_check_affinity pf d_irq dest)\<rparr>,
             Some (cpumask_of pf (cpu_check_affinity pf d_irq dest)), s') \<and>
      mmio s' = mmio s @
        [Writel (IOSAPIC_IRDT_ENTRY (irqline vi)) (addr isp + IOSAPIC_REG_SELECT),
         Readl (addr isp + IOSAPIC_REG_WINDOW) v0,
         Writel (IOSAPIC_IRDT_ENTRY_HI (irqline vi)) (addr isp + IOSAPIC_REG_SELECT),
         Readl (addr isp + IOSAPIC_REG_WINDOW) v1,
         Writel (IOSAPIC_IRDT_ENTRY (irqline vi)) (addr isp + IOSAPIC_REG_SELECT),
         Writel v0 (addr isp + IOSAPIC_REG_WINDOW),
         Readl (addr isp + IOSAPIC_REG_WINDOW) w0,
         Writel (IOSAPIC_IRDT_ENTRY_HI (irqline vi)) (addr isp + IOSAPIC_REG_SELECT),
         Writel d1 (addr isp + IOSAPIC_REG_WINDOW),
         Readl (addr isp + IOSAPIC_REG_WINDOW) w1])"
proof
  let ?cpu = "cpu_check_affinity pf d_irq dest"
  let ?vi = "vi\<lparr>txn_addr := txn_affinity_addr pf d_irq ?cpu\<rparr>"
  assume a: "0 \<le> ?cpu \<and> irte vi = Some p"
  then have "irte ?vi = Some p" by simp
  then obtain dd d1 where d: "iosapic_set_irt_data k pf ?vi = Inr (dd, d1)"
    by (simp add: iosapic_set_irt_data_def Let_def)
  obtain v0 v1 where r: "iosapic_rd_irt_entry pf isp ?vi s =
     ((v0, v1), s\<lparr>mmio := mmio s @
       [Writel (IOSAPIC_IRDT_ENTRY (irqline ?vi)) (addr isp + IOSAPIC_REG_SELECT),
        Readl (addr isp + IOSAPIC_REG_WINDOW) v0,
        Writel (IOSAPIC_IRDT_ENTRY_HI (irqline ?vi)) (addr isp + IOSAPIC_REG_SELECT),
        Readl (addr isp + IOSAPIC_REG_WINDOW) v1]\<rparr>)"
    using rd_irt_entry_trace by blast
  let ?s1 = "snd (iosapic_rd_irt_entry pf isp ?vi s)"
  obtain w0 w1 where w: "iosapic_wr_irt_entry pf isp ?vi v0 d1 ?s1 =
     ?s1\<lparr>mmio := mmio ?s1 @
       [Writel (IOSAPIC_IRDT_ENTRY (irqline ?vi)) (addr isp + IOSAPIC_REG_SELECT),
        Writel v0 (addr isp + IOSAPIC_REG_WINDOW),
        Readl (addr isp + IOSAPIC_REG_WINDOW) w0,
        Writel (IOSAPIC_IRDT_ENTRY_HI (irqline ?vi)) (addr isp + IOSAPIC_REG_SELECT),
        Writel d1 (addr isp + IOSAPIC_REG_WINDOW),
        Readl (addr isp + IOSAPIC_REG_WINDOW) w1]\<rparr>"
    using wr_irt_entry_trace by blast
  let ?s' = "iosapic_wr_irt_entry pf isp ?vi v0 d1 ?s1"
  from a have f: "iosapic_set_affinity_irq k pf isp d_irq vi dest s =
        Inr (0, ?vi, Some (cpumask_of pf ?cpu), ?s')"
    unfolding iosapic_set_affinity_irq_def Let_def r d by simp
  have m: "mmio ?s' = mmio s @
        [Writel (IOSAPIC_IRDT_ENTRY (irqline vi)) (addr isp + IOSAPIC_REG_SELECT),
         Readl (addr isp + IOSAPIC_REG_WINDOW) v0,
         Writel (IOSAPIC_IRDT_ENTRY_HI (irqline vi)) (addr isp + IOSAPIC_REG_SELECT),
         Readl (addr isp + IOSAPIC_REG_WINDOW) v1,
         Writel (IOSAPIC_IRDT_ENTRY (irqline vi)) (addr isp + IOSAPIC_REG_SELECT),
         Writel v0 (addr isp + IOSAPIC_REG_WINDOW),
         Readl (addr isp + IOSAPIC_REG_WINDOW) w0,
         Writel (IOSAPIC_IRDT_ENTRY_HI (irqline vi)) (addr isp + IOSAPIC_REG_SELECT),
         Writel d1 (addr isp + IOSAPIC_REG_WINDOW),
         Readl (addr isp + IOSAPIC_REG_WINDOW) w1]"
    using w unfolding r by simp
  from d f m show "\<exists>v0 v1 dummy_d0 d1 w0 w1 s'.
      iosapic_set_irt_data k pf ?vi = Inr (dummy_d0, d1) \<and>
      iosapic_set_affinity_irq k pf isp d_irq vi dest s =
        Inr (0, ?vi, Some (cpumask_of pf ?cpu), s') \<and>
      mmio s' = mmio s @
        [Writel (IOSAPIC_IRDT_ENTRY (irqline vi)) (addr isp + IOSAPIC_REG_SELECT),
         Readl (addr isp + IOSAPIC_REG_WINDOW) v0,
         Writel (IOSAPIC_IRDT_ENTRY_HI (irqline vi)) (addr isp + IOSAPIC_REG_SELECT),
         Readl (addr isp + IOSAPIC_REG_WINDOW) v1,
         Writel (IOSAPIC_IRDT_ENTRY (irqline vi)) (addr isp + IOSAPIC_REG_SELECT),
         Writel v0 (addr isp + IOSAPIC_REG_WINDOW),
         Readl (addr isp + IOSAPIC_REG_WINDOW) w0,
         Writel (IOSAPIC_IRDT_ENTRY_HI (irqline vi)) (addr isp + IOSAPIC_REG_SELECT),
         Writel d1 (addr isp + IOSAPIC_REG_WINDOW),
         Readl (addr isp + IOSAPIC_REG_WINDOW) w1]"
    by blast
qed

theorem iosapic_set_affinity_irq_keeps_low_word_witness:
  "0 \<le> cpu_check_affinity example_platform 67 1 \<and>
   irte bound_vector = Some example_entry \<and>
   (\<exists>vi' a s' v0. iosapic_set_affinity_irq example_consts example_platform example_isi 67
                    bound_vector 1 sys0 = Inr (0, vi', a, s') \<and>
      txn_addr vi' = 0xfffb0000 \<and> length (mmio s') = 10 \<and>
      mmio s' ! 1 = Readl 0x1010 v0 \<and> mmio s' ! 5 = Writel v0 0x1010)"
proof -
  have b: "0 \<le> cpu_check_affinity example_platform 67 1"
    "irte bound_vector = Some example_entry"
    by (simp_all add: bound_vector_def example_platform_def)
  have v: "mmio sys0 = []" "addr example_isi + IOSAPIC_REG_WINDOW = 0x1010"
    "txn_affinity_addr example_platform 67 (cpu_check_affinity example_platform 67 1)
       = 0xfffb0000"
    by (simp_all add: sys0_def example_isi_def IOSAPIC_REG_WINDOW_def example_platform_def)
  from b iosapic_set_affinity_irq_keeps_low_word
         [of example_platform 67 1 bound_vector example_entry example_consts example_isi sys0]
  obtain v0 v1 d1 w0 w1 s' where s:
    "iosapic_set_affinity_irq example_consts example_platform example_isi 67 bound_vector 1 sys0 =
        Inr (0, bound_vector\<lparr>txn_addr := txn_affinity_addr example_platform 67
                                   (cpu_check_affinity example_platform 67 1)\<rparr>,
             Some (cpumask_of example_platform (cpu_check_affinity example_platform 67 1)), s')"
    "mmio s' = mmio sys0 @
        [Writel (IOSAPIC_IRDT_ENTRY (irqline bound_vector)) (addr example_isi + IOSAPIC_REG_SELECT),
         Readl (addr example_isi + IOSAPIC_REG_WINDOW) v0,
         Writel (IOSAPIC_IRDT_ENTRY_HI (irqline bound_vector)) (addr example_isi + IOSAPIC_REG_SELECT),
         Readl (addr example_isi + IOSAPIC_REG_WINDOW) v1,
         Writel (IOSAPIC_IRDT_ENTRY (irqline bound_vector)) (addr example_isi + IOSAPIC_REG_SELECT),
         Writel v0 (addr example_isi + IOSAPIC_REG_WINDOW),
         Readl (addr example_isi + IOSAPIC_REG_WINDOW) w0,
         Writel (IOSAPIC_IRDT_ENTRY_HI (irqline bound_vector)) (addr example_isi + IOSAPIC_REG_SELECT),
         Writel d1 (addr example_isi + IOSAPIC_REG_WINDOW),
         Readl (addr example_isi + IOSAPIC_REG_WINDOW) w1]"
    by blast
  from s(2) v have "length (mmio s') = 10" "mmio s' ! 1 = Readl 0x1010 v0"
    "mmio s' ! 5 = Writel v0 0x1010"
    by simp_all
  with b s(1) v(3) show ?thesis
    by simp
qed

subsection \<open>Binding\<close>

lemma fixup_bound:
  assumes "fixup_resolves k pf st isi dev e"
    and "unat (dest_iosapic_intin e) < length (isi_vector isi)"
    and "irte (isi_vector isi ! unat (dest_iosapic_intin e)) = Some e0"
  shows "iosapic_fixup_irq k pf st (Some isi) dev s =
           Inr (txn_irq (isi_vector isi ! unat (dest_iosapic_intin e)), Some isi, s)"
  using assms by (auto simp add: iosapic_fixup_irq_def fixup_resolves_def Let_def)

lemma fixup_unbound:
  assumes "fixup_resolves k pf st isi dev e"
    and "unat (dest_iosapic_intin e) < length (isi_vector isi)"
    and "irte (isi_vector isi ! unat (dest_iosapic_intin e)) = None"
    and "0 \<le> txn_alloc_irq pf (txn_allocs s)"
  shows "iosapic_fixup_irq k pf st (Some isi) dev s =
           Inr (txn_alloc_irq pf (txn_allocs s),
                Some (isi\<lparr>isi_vector := (isi_vector isi)
                  [unat (dest_iosapic_intin e) :=
                     (isi_vector isi ! unat (dest_iosapic_intin e))
                       \<lparr>irte := Some e, txn_irq := txn_alloc_irq pf (txn_allocs s),
                        txn_addr := txn_alloc_addr pf (txn_alloc_irq pf (txn_allocs s)),
                        txn_data := txn_alloc_data pf (txn_alloc_irq pf (txn_allocs s)),
                        eoi_addr := addr isi + IOSAPIC_REG_EOI,
                        eoi_data := cpu_to_le32 pf
                          (ucast (txn_alloc_data pf (txn_alloc_irq pf (txn_allocs s))))\<rparr>]\<rparr>),
                s\<lparr>txn_allocs := txn_allocs s + 1,
                  claimed := claimed s @
                    [(txn_alloc_irq pf (txn_allocs s), isi_hpa isi,
                      irqline (isi_vector isi ! unat (dest_iosapic_intin e)))]\<rparr>)"
  using assms by (auto simp add: iosapic_fixup_irq_def fixup_resolves_def Let_def)

lemma fixup_keeps_binding:
  assumes f: "iosapic_fixup_irq k pf st (Some isi) dev s = Inr (r, Some isi', s')"
    and l: "L < length (isi_vector isi)"
    and b: "irte (isi_vector isi ! L) = Some e0"
  shows "length (isi_vector isi') = length (isi_vector isi) \<and>
         isi_vector isi' ! L = isi_vector isi ! L \<and> isi_hpa isi' = isi_hpa isi"
proof (cases "isi' = isi")
  case True
  then show ?thesis by simp
next
  case False
  with f obtain e where e: "iosapic_xlate_pin k pf st isi dev = Some e"
    "irte (isi_vector isi ! unat (dest_iosapic_intin e)) = None"
    "\<exists>vi'. isi' = isi\<lparr>isi_vector := (isi_vector isi)[unat (dest_iosapic_intin e) := vi']\<rparr>"
    by (auto simp add: iosapic_fixup_irq_def Let_def split: option.splits if_splits)
  from e(2) b have "unat (dest_iosapic_intin e) \<noteq> L" by auto
  with e(3) show ?thesis by auto
qed

lemma set_affinity_keeps_binding:
  assumes "iosapic_set_affinity_irq k pf isp d_irq vi dest s = Inr (r, vi', a, s')"
  shows "irte vi' = irte vi \<and> txn_irq vi' = txn_irq vi"
  using assms
  by (auto simp add: iosapic_set_affinity_irq_def Let_def split_beta
      split: if_splits sum.splits)

lemma driver_step_keeps_binding:
  assumes d: "driver_step k pf st c (isi, s) = Inr (isi', s')"
    and l: "L < length (isi_vector isi)"
    and b: "irte (isi_vector isi ! L) = Some e0"
  shows "length (isi_vector isi') = length (isi_vector isi) \<and>
         irte (isi_vector isi' ! L) = Some e0 \<and>
         txn_irq (isi_vector isi' ! L) = txn_irq (isi_vector isi ! L) \<and>
         isi_hpa isi' = isi_hpa isi"
proof (cases c)
  case (Fixup dev)
  show ?thesis
  proof (cases "iosapic_fixup_irq k pf st (Some isi) dev s")
    case (Inl h)
    with d Fixup show ?thesis by simp
  next
    case (Inr x)
    obtain r io s1 where x: "x = (r, io, s1)" by (cases x) auto
    show ?thesis
    proof (cases io)
      case None
      with d Fixup Inr x b show ?thesis by simp
    next
      case (Some isi1)
      with d Fixup Inr x have "isi' = isi1" by simp
      with Inr x Some fixup_keeps_binding [OF _ l b, of k pf st dev s r isi' s1] b
      show ?thesis by simp
    qed
  qed
next
  case (Mask n)
  with d b show ?thesis by (simp split: if_splits)
next
  case (Unmask n)
  with d b show ?thesis by (auto split: if_splits sum.splits)
next
  case (Eoi n)
  with d b show ?thesis by (simp split: if_splits)
next
  case (Set_affinity n dest)
  with d obtain r vi' a where n: "n < length (isi_vector isi)"
    and sa: "iosapic_set_affinity_irq k pf isi (txn_irq (isi_vector isi ! n))
               (isi_vector isi ! n) dest s = Inr (r, vi', a, s')"
    and i: "isi' = isi\<lparr>isi_vector := (isi_vector isi)[n := vi']\<rparr>"
    by (auto split: if_splits sum.splits)
  from set_affinity_keeps_binding [OF sa]
  have "irte vi' = irte (isi_vector isi ! n)" "txn_irq vi' = txn_irq (isi_vector isi ! n)"
    by simp_all
  with i l b show ?thesis
    by (cases "n = L") simp_all
qed

lemma driver_run_keeps_binding:
  assumes "driver_run k pf st cs (isi, s) = Inr (isi', s')"
    and "L < length (isi_vector isi)"
    and "irte (isi_vector isi ! L) = Some e0"
  shows "L < length (isi_vector isi') \<and>
         irte (isi_vector isi' ! L) = Some e0 \<and>
         txn_irq (isi_vector isi' ! L) = txn_irq (isi_vector isi ! L) \<and>
         isi_hpa isi' = isi_hpa isi"
  using assms
proof (induction cs arbitrary: isi s)
  case Nil
  then show ?case by simp
next
  case (Cons c cs)
  from Cons.prems(1) obtain isi1 s1 where
    st: "driver_step k pf st c (isi, s) = Inr (isi1, s1)"
    and rn: "driver_run k pf st cs (isi1, s1) = Inr (isi', s')"
    by (auto split: sum.splits)
  from driver_step_keeps_binding [OF st Cons.prems(2,3)]
  have k1: "length (isi_vector isi1) = length (isi_vector isi)"
    "irte (isi_vector isi1 ! L) = Some e0"
    "txn_irq (isi_vector isi1 ! L) = txn_irq (isi_vector isi ! L)"
    "isi_hpa isi1 = isi_hpa isi"
    by simp_all
  from k1(1) Cons.prems(2) have l1: "L < length (isi_vector isi1)" by simp
  from Cons.IH [OF rn l1 k1(2)] k1 show ?case by simp
qed

lemma fixup_returns:
  assumes r: "fixup_resolves k pf st isi dev e"
    and f: "iosapic_fixup_irq k pf st (Some isi) dev s = Inr (irq, Some isi1, s1)"
  shows "unat (dest_iosapic_intin e) < length (isi_vector isi) \<and>
         (irte (isi_vector isi ! unat (dest_iosapic_intin e)) = None \<longrightarrow>
            0 \<le> txn_alloc_irq pf (txn_allocs s))"
  using assms
  by (auto simp add: iosapic_fixup_irq_def fixup_resolves_def Let_def split: if_splits)

text \<open>
  C6: take a call of \<open>iosapic_fixup_irq\<close> that resolves to line \<open>L\<close> and returns \<open>irq\<close>.
  If the line was unbound, this call binds it: it stores the routing entry, takes the next
  processor interrupt and its address and data from the allocator, sets the acknowledge
  address and data, and claims the interrupt. If the line was bound already, the call
  changes nothing and returns the line's interrupt. Either way, after any further calls
  of the driver (bindings of other devices, mask, unmask, acknowledge, retarget), the line
  is still bound to the same routing entry, and every call that resolves to \<open>L\<close>, for the
  same or another device, returns the same \<open>irq\<close> and changes neither the controller nor
  the allocator or the claimed interrupts.
\<close>

theorem iosapic_fixup_irq_first_binding_wins:
  "fixup_resolves k pf st isi dev e \<and> unat (dest_iosapic_intin e) = L \<and>
   iosapic_fixup_irq k pf st (Some isi) dev s = Inr (irq, Some isi1, s1) \<longrightarrow>
     (irte (isi_vector isi ! L) = None \<longrightarrow>
        irq = txn_alloc_irq pf (txn_allocs s) \<and>
        isi_vector isi1 = (isi_vector isi)
          [L := (isi_vector isi ! L)
             \<lparr>irte := Some e, txn_irq := irq, txn_addr := txn_alloc_addr pf irq,
              txn_data := txn_alloc_data pf irq, eoi_addr := addr isi + IOSAPIC_REG_EOI,
              eoi_data := cpu_to_le32 pf (ucast (txn_alloc_data pf irq))\<rparr>] \<and>
        txn_allocs s1 = txn_allocs s + 1 \<and>
        claimed s1 = claimed s @ [(irq, isi_hpa isi, irqline (isi_vector isi ! L))]) \<and>
     (\<forall>e0. irte (isi_vector isi ! L) = Some e0 \<longrightarrow>
        irq = txn_irq (isi_vector isi ! L) \<and> isi1 = isi \<and> s1 = s) \<and>
     (\<forall>cs isi2 s2 dev' e'.
        driver_run k pf st cs (isi1, s1) = Inr (isi2, s2) \<and>
        fixup_resolves k pf st isi2 dev' e' \<and> unat (dest_iosapic_intin e') = L \<longrightarrow>
          irte (isi_vector isi2 ! L) = irte (isi_vector isi1 ! L) \<and>
          irte (isi_vector isi2 ! L) \<noteq> None \<and>
          iosapic_fixup_irq k pf st (Some isi2) dev' s2 = Inr (irq, Some isi2, s2))"
proof (intro impI)
  assume a: "fixup_resolves k pf st isi dev e \<and> unat (dest_iosapic_intin e) = L \<and>
   iosapic_fixup_irq k pf st (Some isi) dev s = Inr (irq, Some isi1, s1)"
  then have r: "fixup_resolves k pf st isi dev e"
    and f: "iosapic_fixup_irq k pf st (Some isi) dev s = Inr (irq, Some isi1, s1)"
    and L: "unat (dest_iosapic_intin e) = L"
    by simp_all
  from fixup_returns [OF r f] L have l: "L < length (isi_vector isi)"
    and al: "irte (isi_vector isi ! L) = None \<longrightarrow> 0 \<le> txn_alloc_irq pf (txn_allocs s)"
    by simp_all
  have first: "irq = txn_alloc_irq pf (txn_allocs s) \<and>
        isi_vector isi1 = (isi_vector isi)
          [L := (isi_vector isi ! L)
             \<lparr>irte := Some e, txn_irq := irq, txn_addr := txn_alloc_addr pf irq,
              txn_data := txn_alloc_data pf irq, eoi_addr := addr isi + IOSAPIC_REG_EOI,
              eoi_data := cpu_to_le32 pf (ucast (txn_alloc_data pf irq))\<rparr>] \<and>
        txn_allocs s1 = txn_allocs s + 1 \<and>
        claimed s1 = claimed s @ [(irq, isi_hpa isi, irqline (isi_vector isi ! L))]"
    if u: "irte (isi_vector isi ! L) = None"
  proof -
    from u al have p: "0 \<le> txn_alloc_irq pf (txn_allocs s)" by simp
    from l L have l': "unat (dest_iosapic_intin e) < length (isi_vector isi)" by simp
    from u L have u': "irte (isi_vector isi ! unat (dest_iosapic_intin e)) = None" by simp
    from fixup_unbound [OF r l' u' p] L f show ?thesis
      by auto
  qed
  have again: "irq = txn_irq (isi_vector isi ! L) \<and> isi1 = isi \<and> s1 = s"
    if b: "irte (isi_vector isi ! L) = Some e0" for e0
  proof -
    from l L have l': "unat (dest_iosapic_intin e) < length (isi_vector isi)" by simp
    from b L have b': "irte (isi_vector isi ! unat (dest_iosapic_intin e)) = Some e0" by simp
    have "iosapic_fixup_irq k pf st (Some isi) dev s =
            Inr (txn_irq (isi_vector isi ! L), Some isi, s)"
      using fixup_bound [OF r l' b'] L by simp
    with f have "(irq, Some isi1, s1) = (txn_irq (isi_vector isi ! L), Some isi, s)"
      by (simp only: sum.inject)
    then show ?thesis
      by simp
  qed
  have bound1: "L < length (isi_vector isi1) \<and> irte (isi_vector isi1 ! L) \<noteq> None \<and>
                txn_irq (isi_vector isi1 ! L) = irq"
  proof (cases "irte (isi_vector isi ! L)")
    case None
    from first [OF None] l show ?thesis by simp
  next
    case (Some e0)
    from again [OF Some] l Some show ?thesis by simp
  qed
  have later: "irte (isi_vector isi2 ! L) = irte (isi_vector isi1 ! L) \<and>
          irte (isi_vector isi2 ! L) \<noteq> None \<and>
          iosapic_fixup_irq k pf st (Some isi2) dev' s2 = Inr (irq, Some isi2, s2)"
    if d: "driver_run k pf st cs (isi1, s1) = Inr (isi2, s2) \<and>
           fixup_resolves k pf st isi2 dev' e' \<and> unat (dest_iosapic_intin e') = L"
    for cs isi2 s2 dev' e'
  proof -
    from bound1 obtain e1 where e1: "irte (isi_vector isi1 ! L) = Some e1" by auto
    from d have run: "driver_run k pf st cs (isi1, s1) = Inr (isi2, s2)"
      and r': "fixup_resolves k pf st isi2 dev' e'"
      and L': "unat (dest_iosapic_intin e') = L"
      by simp_all
    from driver_run_keeps_binding [OF run _ e1] bound1
    have k2: "L < length (isi_vector isi2)" "irte (isi_vector isi2 ! L) = Some e1"
      "txn_irq (isi_vector isi2 ! L) = irq"
      by simp_all
    from k2 L' have l2: "unat (dest_iosapic_intin e') < length (isi_vector isi2)"
      and b2: "irte (isi_vector isi2 ! unat (dest_iosapic_intin e')) = Some e1"
      by simp_all
    from fixup_bound [OF r' l2 b2] L' k2
    have "iosapic_fixup_irq k pf st (Some isi2) dev' s2 = Inr (irq, Some isi2, s2)"
      by simp
    with k2 e1 show ?thesis by simp
  qed
  from first again later show "(irte (isi_vector isi ! L) = None \<longrightarrow>
        irq = txn_alloc_irq pf (txn_allocs s) \<and>
        isi_vector isi1 = (isi_vector isi)
          [L := (isi_vector isi ! L)
             \<lparr>irte := Some e, txn_irq := irq, txn_addr := txn_alloc_addr pf irq,
              txn_data := txn_alloc_data pf irq, eoi_addr := addr isi + IOSAPIC_REG_EOI,
              eoi_data := cpu_to_le32 pf (ucast (txn_alloc_data pf irq))\<rparr>] \<and>
        txn_allocs s1 = txn_allocs s + 1 \<and>
        claimed s1 = claimed s @ [(irq, isi_hpa isi, irqline (isi_vector isi ! L))]) \<and>
     (\<forall>e0. irte (isi_vector isi ! L) = Some e0 \<longrightarrow>
        irq = txn_irq (isi_vector isi ! L) \<and> isi1 = isi \<and> s1 = s) \<and>
     (\<forall>cs isi2 s2 dev' e'.
        driver_run k pf st cs (isi1, s1) = Inr (isi2, s2) \<and>
        fixup_resolves k pf st isi2 dev' e' \<and> unat (dest_iosapic_intin e') = L \<longrightarrow>
          irte (isi_vector isi2 ! L) = irte (isi_vector isi1 ! L) \<and>
          irte (isi_vector isi2 ! L) \<noteq> None \<and>
          iosapic_fixup_irq k pf st (Some isi2) dev' s2 = Inr (irq, Some isi2, s2))"
    by blast
qed

lemma example_xlate:
  assumes "isi_hpa isi = 0x1000"
  shows "iosapic_xlate_pin example_consts example_platform example_irt isi plain_dev
           = Some example_entry"
    and "iosapic_xlate_pin example_consts example_platform example_irt isi bridged_dev
           = Some example_entry"
  using assms
  by (simp_all add: iosapic_xlate_pin_def plain_dev_def bridged_dev_def Let_def
      pci_swizzle_interrupt_pin_def irt_find_irqline_def irt_entries_def example_irt_def
      irq_devno_of_def example_consts_def example_entry_def COMPARE_IRTE_ADDR_def
      example_platform_def)

lemma example_resolves:
  assumes "isi_hpa isi = 0x1000"
  shows "fixup_resolves example_consts example_platform example_irt isi plain_dev example_entry"
    and "fixup_resolves example_consts example_platform example_irt isi bridged_dev example_entry"
  using example_xlate [OF assms]
  by (simp_all add: fixup_resolves_def example_platform_def)

lemma mmio_frame [simp]:
  "txn_allocs (writel v a s) = txn_allocs s" "claimed (writel v a s) = claimed s"
  "txn_allocs (raw_writel v a s) = txn_allocs s" "claimed (raw_writel v a s) = claimed s"
  "txn_allocs (snd (readl pf a s)) = txn_allocs s" "claimed (snd (readl pf a s)) = claimed s"
  by (simp_all add: writel_def raw_writel_def readl_def Let_def)

lemma rd_wr_frame [simp]:
  "txn_allocs (snd (iosapic_rd_irt_entry pf isp vi s)) = txn_allocs s"
  "claimed (snd (iosapic_rd_irt_entry pf isp vi s)) = claimed s"
  "txn_allocs (iosapic_wr_irt_entry pf isp vi dp0 dp1 s) = txn_allocs s"
  "claimed (iosapic_wr_irt_entry pf isp vi dp0 dp1 s) = claimed s"
  by (simp_all add: iosapic_rd_irt_entry_def iosapic_wr_irt_entry_def iosapic_read_def
      iosapic_write_def split_beta Let_def)

lemma set_affinity_returns:
  assumes "irte vi = Some p"
  shows "\<exists>r vi' a s'. iosapic_set_affinity_irq k pf isp d_irq vi dest s = Inr (r, vi', a, s') \<and>
           txn_allocs s' = txn_allocs s \<and> claimed s' = claimed s"
proof (cases "cpu_check_affinity pf d_irq dest < 0")
  case True
  then show ?thesis
    by (simp add: iosapic_set_affinity_irq_def)
next
  case False
  let ?vi = "vi\<lparr>txn_addr := txn_affinity_addr pf d_irq (cpu_check_affinity pf d_irq dest)\<rparr>"
  from assms obtain dd d1 where "iosapic_set_irt_data k pf ?vi = Inr (dd, d1)"
    by (simp add: iosapic_set_irt_data_def Let_def)
  with False show ?thesis
    by (simp add: iosapic_set_affinity_irq_def Let_def split_beta)
qed

lemma driver_run_bound_line:
  assumes n: "n < length (isi_vector isi)" and b: "irte (isi_vector isi ! n) = Some e0"
  shows "\<exists>isi' s'. driver_run k pf st [Unmask n, Set_affinity n dest, Mask n, Eoi n] (isi, s)
                     = Inr (isi', s') \<and>
           txn_allocs s' = txn_allocs s \<and> claimed s' = claimed s"
proof -
  from b obtain d0 d1 where d: "iosapic_set_irt_data k pf (isi_vector isi ! n) = Inr (d0, d1)"
    by (simp add: iosapic_set_irt_data_def Let_def)
  define s1 where "s1 = iosapic_eoi (eoi_addr (isi_vector isi ! n)) (eoi_data (isi_vector isi ! n))
                          (iosapic_wr_irt_entry pf isi (isi_vector isi ! n) d0 d1 s)"
  from n d have u: "driver_step k pf st (Unmask n) (isi, s) = Inr (isi, s1)"
    by (simp add: iosapic_unmask_irq_def s1_def)
  have f1: "txn_allocs s1 = txn_allocs s" "claimed s1 = claimed s"
    by (simp_all add: s1_def iosapic_eoi_def)
  from set_affinity_returns [OF b] obtain r vi' a s2 where
    sa: "iosapic_set_affinity_irq k pf isi (txn_irq (isi_vector isi ! n))
           (isi_vector isi ! n) dest s1 = Inr (r, vi', a, s2)"
    and f2: "txn_allocs s2 = txn_allocs s1" "claimed s2 = claimed s1"
    by blast
  define isi2 where "isi2 = isi\<lparr>isi_vector := (isi_vector isi)[n := vi']\<rparr>"
  from n sa have a: "driver_step k pf st (Set_affinity n dest) (isi, s1) = Inr (isi2, s2)"
    by (simp add: isi2_def)
  from n have n2: "n < length (isi_vector isi2)"
    by (simp add: isi2_def)
  define s3 where "s3 = iosapic_mask_irq pf isi2 (isi_vector isi2 ! n) s2"
  from n2 have m: "driver_step k pf st (Mask n) (isi2, s2) = Inr (isi2, s3)"
    by (simp add: s3_def)
  have f3: "txn_allocs s3 = txn_allocs s2" "claimed s3 = claimed s2"
    by (simp_all add: s3_def iosapic_mask_irq_def split_beta Let_def)
  define s4 where "s4 = iosapic_eoi_irq (isi_vector isi2 ! n) s3"
  from n2 have e: "driver_step k pf st (Eoi n) (isi2, s3) = Inr (isi2, s4)"
    by (simp add: s4_def)
  have f4: "txn_allocs s4 = txn_allocs s3" "claimed s4 = claimed s3"
    by (simp_all add: s4_def iosapic_eoi_irq_def iosapic_eoi_def)
  from u a m e have "driver_run k pf st [Unmask n, Set_affinity n dest, Mask n, Eoi n] (isi, s)
                       = Inr (isi2, s4)"
    by simp
  with f1 f2 f3 f4 show ?thesis
    by simp
qed

theorem iosapic_fixup_irq_first_binding_wins_witness:
  "\<exists>isi1 s1 isi2 s2.
     fixup_resolves example_consts example_platform example_irt example_isi plain_dev
       example_entry \<and>
     unat (dest_iosapic_intin example_entry) = 5 \<and>
     irte (isi_vector example_isi ! 5) = None \<and>
     iosapic_fixup_irq example_consts example_platform example_irt (Some example_isi)
       plain_dev sys0 = Inr (64, Some isi1, s1) \<and>
     irte (isi_vector isi1 ! 5) = Some example_entry \<and> txn_allocs s1 = 1 \<and>
     claimed s1 = [(64, 0x1000, 5)] \<and>
     driver_run example_consts example_platform example_irt
       [Unmask 5, Set_affinity 5 1, Mask 5, Eoi 5] (isi1, s1) = Inr (isi2, s2) \<and>
     fixup_resolves example_consts example_platform example_irt isi2 bridged_dev
       example_entry \<and>
     iosapic_fixup_irq example_consts example_platform example_irt (Some isi2)
       bridged_dev s2 = Inr (64, Some isi2, s2) \<and>
     txn_allocs s2 = 1 \<and> claimed s2 = [(64, 0x1000, 5)]"
proof -
  let ?k = example_consts and ?pf = example_platform and ?st = example_irt
  have h: "isi_hpa example_isi = 0x1000" "unat (dest_iosapic_intin example_entry) = 5"
    "length (isi_vector example_isi) = 7" "isi_vector example_isi ! 5 = new_vector 5"
    "txn_alloc_irq ?pf (txn_allocs sys0) = 64" "txn_allocs sys0 = 0" "claimed sys0 = []"
    by (simp_all add: example_isi_def example_entry_def example_platform_def sys0_def)
  then have u: "irte (isi_vector example_isi ! 5) = None" "irqline (new_vector 5) = 5"
    by (simp_all add: new_vector_def)
  note r = example_resolves(1) [OF h(1)]
  have "\<exists>isi1 s1. iosapic_fixup_irq ?k ?pf ?st (Some example_isi) plain_dev sys0
                    = Inr (64, Some isi1, s1)"
    using fixup_unbound [OF r, of sys0] h u by simp
  then obtain isi1 s1 where
    f: "iosapic_fixup_irq ?k ?pf ?st (Some example_isi) plain_dev sys0 = Inr (64, Some isi1, s1)"
    by blast
  note t = iosapic_fixup_irq_first_binding_wins
             [of ?k ?pf ?st example_isi plain_dev example_entry 5 sys0 64 isi1 s1]
  from t r h(2) f u(1) have b: "isi_vector isi1 = (isi_vector example_isi)
          [5 := (isi_vector example_isi ! 5)
             \<lparr>irte := Some example_entry, txn_irq := 64, txn_addr := txn_alloc_addr ?pf 64,
              txn_data := txn_alloc_data ?pf 64, eoi_addr := addr example_isi + IOSAPIC_REG_EOI,
              eoi_data := cpu_to_le32 ?pf (ucast (txn_alloc_data ?pf 64))\<rparr>]"
    "txn_allocs s1 = txn_allocs sys0 + 1"
    "claimed s1 = claimed sys0 @ [(64, isi_hpa example_isi, irqline (isi_vector example_isi ! 5))]"
    by blast+
  from b h u have b1: "5 < length (isi_vector isi1)"
    "irte (isi_vector isi1 ! 5) = Some example_entry" "txn_allocs s1 = 1"
    "claimed s1 = [(64, 0x1000, 5)]"
    by simp_all
  from driver_run_bound_line [OF b1(1,2)] obtain isi2 s2 where
    run: "driver_run ?k ?pf ?st [Unmask 5, Set_affinity 5 1, Mask 5, Eoi 5] (isi1, s1)
            = Inr (isi2, s2)"
    and fr: "txn_allocs s2 = txn_allocs s1" "claimed s2 = claimed s1"
    by blast
  from driver_run_keeps_binding [OF run b1(1,2)] 
  have "isi_hpa isi2 = isi_hpa isi1" by simp
  moreover from f h(1) have "isi_hpa isi1 = 0x1000"
    by (auto simp add: iosapic_fixup_irq_def Let_def split: option.splits if_splits)
  ultimately have h2: "isi_hpa isi2 = 0x1000" by simp
  note r2 = example_resolves(2) [OF h2]
  from t r h(2) f run r2
  have f2: "iosapic_fixup_irq ?k ?pf ?st (Some isi2) bridged_dev s2 = Inr (64, Some isi2, s2)"
    by blast
  from r h(2) u(1) f b1 run r2 f2 fr show ?thesis
    by auto
qed

end
